theory Spec2Isabelle
  imports Main "HOL-Library.Word"
begin

section \<open>Documents of the event store\<close>

text \<open>
  Both services talk to each other only through two Firestore collections: \<open>events\<close>
  (an append-only log of event documents) and \<open>daily_quotas\<close> (one counter document
  per calendar day in IST). A document is a map from field names to typed values.
  A Go \<open>int64\<close> is a 64-bit word read as two's complement; a \<open>float64\<close> is kept as
  its 64-bit pattern, since no service does arithmetic on prices.
\<close>

type_synonym int64 = "64 word"
type_synonym float64 = "64 word"

datatype fsval =
    VNull
  | VBool bool
  | VInt int64
  | VDouble float64
  | VString string
  | VTime nat
  | VArray "fsval list"
  | VMap "(string \<times> fsval) list"

type_synonym doc = "string \<rightharpoonup> fsval"

datatype err = NotFound | StoreErr | DecodeErr

text \<open>A Go function either returns or panics; a panic in a goroutine ends the process.\<close>

datatype 'a outcome = Panicked | Returned 'a

subsection \<open>pkg/events/events.go\<close>

definition EventTypeOrderCreated :: string where
  "EventTypeOrderCreated = ''OrderCreated''"

definition EventTypeDiscountReserved :: string where
  "EventTypeDiscountReserved = ''DiscountReserved''"

definition EventTypeDiscountRejected :: string where
  "EventTypeDiscountRejected = ''DiscountRejected''"

definition EventTypeDiscountRelease :: string where
  "EventTypeDiscountRelease = ''DiscountRelease''"

record BaseEvent =
  TraceID :: string
  Type :: string
  Timestamp :: nat

record Service =
  Name :: string
  Price :: float64

record OrderCreated = BaseEvent +
  OrderID :: string
  UserID :: string
  Name :: string
  Gender :: string
  DOB :: string
  SelectedServices :: "Service list"
  BasePrice :: float64
  IsR1Eligible :: bool
  DiscountPercent :: float64
  FinalPrice :: float64

record DiscountReserved = BaseEvent +
  OrderID :: string
  Status :: string

record DiscountRejected = BaseEvent +
  OrderID :: string
  Status :: string
  Reason :: string

record DiscountRelease = BaseEvent +
  OrderID :: string
  Reason :: string

subsection \<open>Reading a document into a struct (\<open>DataTo\<close>)\<close>

text \<open>
  \<open>doc.DataTo(&event)\<close> starts from the zero value of the struct and copies every
  document field whose name is a \<open>firestore\<close> tag of the struct. A field that is absent
  or null keeps the zero value; a value of the wrong kind makes \<open>DataTo\<close> return an
  error. An integer is accepted for a \<open>float64\<close> field when the conversion is exact;
  the conversion \<open>i2f\<close> is supplied by the caller.
\<close>

definition dec_string :: "fsval option \<Rightarrow> err + string" where
  "dec_string v = (case v of
       None \<Rightarrow> Inr []
     | Some VNull \<Rightarrow> Inr []
     | Some (VString s) \<Rightarrow> Inr s
     | Some _ \<Rightarrow> Inl DecodeErr)"

definition dec_bool :: "fsval option \<Rightarrow> err + bool" where
  "dec_bool v = (case v of
       None \<Rightarrow> Inr False
     | Some VNull \<Rightarrow> Inr False
     | Some (VBool b) \<Rightarrow> Inr b
     | Some _ \<Rightarrow> Inl DecodeErr)"

definition dec_time :: "fsval option \<Rightarrow> err + nat" where
  "dec_time v = (case v of
       None \<Rightarrow> Inr 0
     | Some VNull \<Rightarrow> Inr 0
     | Some (VTime t) \<Rightarrow> Inr t
     | Some _ \<Rightarrow> Inl DecodeErr)"

definition dec_float :: "(int64 \<Rightarrow> float64 option) \<Rightarrow> fsval option \<Rightarrow> err + float64" where
  "dec_float i2f v = (case v of
       None \<Rightarrow> Inr 0
     | Some VNull \<Rightarrow> Inr 0
     | Some (VDouble d) \<Rightarrow> Inr d
     | Some (VInt i) \<Rightarrow> (case i2f i of None \<Rightarrow> Inl DecodeErr | Some d \<Rightarrow> Inr d)
     | Some _ \<Rightarrow> Inl DecodeErr)"

definition thenE :: "err + 'a \<Rightarrow> ('a \<Rightarrow> err + 'b) \<Rightarrow> err + 'b" where
  "thenE r f = (case r of Inl e \<Rightarrow> Inl e | Inr x \<Rightarrow> f x)"

definition dec_service :: "(int64 \<Rightarrow> float64 option) \<Rightarrow> fsval \<Rightarrow> err + Service" where
  "dec_service i2f v = (case v of
       VNull \<Rightarrow> Inr \<lparr>Service.Name = [], Price = 0\<rparr>
     | VMap m \<Rightarrow>
         thenE (dec_string (map_of m ''name'')) (\<lambda>n.
         thenE (dec_float i2f (map_of m ''price'')) (\<lambda>p.
         Inr \<lparr>Service.Name = n, Price = p\<rparr>))
     | _ \<Rightarrow> Inl DecodeErr)"

fun dec_all :: "('a \<Rightarrow> err + 'b) \<Rightarrow> 'a list \<Rightarrow> err + 'b list" where
  "dec_all f [] = Inr []"
| "dec_all f (x # xs) =
     (case f x of
        Inl e \<Rightarrow> Inl e
      | Inr y \<Rightarrow> (case dec_all f xs of Inl e \<Rightarrow> Inl e | Inr ys \<Rightarrow> Inr (y # ys)))"

definition dec_services :: "(int64 \<Rightarrow> float64 option) \<Rightarrow> fsval option \<Rightarrow> err + Service list" where
  "dec_services i2f v = (case v of
       None \<Rightarrow> Inr []
     | Some VNull \<Rightarrow> Inr []
     | Some (VArray vs) \<Rightarrow> dec_all (dec_service i2f) vs
     | Some _ \<Rightarrow> Inl DecodeErr)"

definition dataTo_OrderCreated :: "(int64 \<Rightarrow> float64 option) \<Rightarrow> doc \<Rightarrow> err + OrderCreated" where
  "dataTo_OrderCreated i2f d =
     thenE (dec_string (d ''trace_id'')) (\<lambda>tr.
     thenE (dec_string (d ''type'')) (\<lambda>ty.
     thenE (dec_time (d ''timestamp'')) (\<lambda>ts.
     thenE (dec_string (d ''order_id'')) (\<lambda>oid.
     thenE (dec_string (d ''user_id'')) (\<lambda>uid.
     thenE (dec_string (d ''name'')) (\<lambda>nm.
     thenE (dec_string (d ''gender'')) (\<lambda>gd.
     thenE (dec_string (d ''dob'')) (\<lambda>db.
     thenE (dec_services i2f (d ''selected_services'')) (\<lambda>sv.
     thenE (dec_float i2f (d ''base_price'')) (\<lambda>bp.
     thenE (dec_bool (d ''is_r1_eligible'')) (\<lambda>el.
     thenE (dec_float i2f (d ''discount_percent'')) (\<lambda>dp.
     thenE (dec_float i2f (d ''final_price'')) (\<lambda>fp.
     Inr \<lparr>TraceID = tr, Type = ty, Timestamp = ts,
          OrderCreated.OrderID = oid, UserID = uid, OrderCreated.Name = nm, Gender = gd,
          DOB = db, SelectedServices = sv, BasePrice = bp, IsR1Eligible = el,
          DiscountPercent = dp, FinalPrice = fp\<rparr>)))))))))))))"

definition dataTo_DiscountReserved :: "doc \<Rightarrow> err + DiscountReserved" where
  "dataTo_DiscountReserved d =
     thenE (dec_string (d ''trace_id'')) (\<lambda>tr.
     thenE (dec_string (d ''type'')) (\<lambda>ty.
     thenE (dec_time (d ''timestamp'')) (\<lambda>ts.
     thenE (dec_string (d ''order_id'')) (\<lambda>oid.
     thenE (dec_string (d ''status'')) (\<lambda>st.
     Inr \<lparr>TraceID = tr, Type = ty, Timestamp = ts,
          DiscountReserved.OrderID = oid, DiscountReserved.Status = st\<rparr>)))))"

definition dataTo_DiscountRejected :: "doc \<Rightarrow> err + DiscountRejected" where
  "dataTo_DiscountRejected d =
     thenE (dec_string (d ''trace_id'')) (\<lambda>tr.
     thenE (dec_string (d ''type'')) (\<lambda>ty.
     thenE (dec_time (d ''timestamp'')) (\<lambda>ts.
     thenE (dec_string (d ''order_id'')) (\<lambda>oid.
     thenE (dec_string (d ''status'')) (\<lambda>st.
     thenE (dec_string (d ''reason'')) (\<lambda>rs.
     Inr \<lparr>TraceID = tr, Type = ty, Timestamp = ts,
          DiscountRejected.OrderID = oid, DiscountRejected.Status = st,
          DiscountRejected.Reason = rs\<rparr>))))))"

definition dataTo_DiscountRelease :: "doc \<Rightarrow> err + DiscountRelease" where
  "dataTo_DiscountRelease d =
     thenE (dec_string (d ''trace_id'')) (\<lambda>tr.
     thenE (dec_string (d ''type'')) (\<lambda>ty.
     thenE (dec_time (d ''timestamp'')) (\<lambda>ts.
     thenE (dec_string (d ''order_id'')) (\<lambda>oid.
     thenE (dec_string (d ''reason'')) (\<lambda>rs.
     Inr \<lparr>TraceID = tr, Type = ty, Timestamp = ts,
          DiscountRelease.OrderID = oid, DiscountRelease.Reason = rs\<rparr>)))))"

subsection \<open>Writing a struct as a document\<close>

definition doc_of_Service :: "Service \<Rightarrow> fsval" where
  "doc_of_Service s = VMap [(''name'', VString (Service.Name s)), (''price'', VDouble (Price s))]"

definition doc_of_OrderCreated :: "OrderCreated \<Rightarrow> doc" where
  "doc_of_OrderCreated e =
     [''trace_id'' \<mapsto> VString (TraceID e),
      ''type'' \<mapsto> VString (Type e),
      ''timestamp'' \<mapsto> VTime (Timestamp e),
      ''order_id'' \<mapsto> VString (OrderCreated.OrderID e),
      ''user_id'' \<mapsto> VString (UserID e),
      ''name'' \<mapsto> VString (OrderCreated.Name e),
      ''gender'' \<mapsto> VString (Gender e),
      ''dob'' \<mapsto> VString (DOB e),
      ''selected_services'' \<mapsto> VArray (map doc_of_Service (SelectedServices e)),
      ''base_price'' \<mapsto> VDouble (BasePrice e),
      ''is_r1_eligible'' \<mapsto> VBool (IsR1Eligible e),
      ''discount_percent'' \<mapsto> VDouble (DiscountPercent e),
      ''final_price'' \<mapsto> VDouble (FinalPrice e)]"

definition doc_of_DiscountReserved :: "DiscountReserved \<Rightarrow> doc" where
  "doc_of_DiscountReserved e =
     [''trace_id'' \<mapsto> VString (TraceID e),
      ''type'' \<mapsto> VString (Type e),
      ''timestamp'' \<mapsto> VTime (Timestamp e),
      ''order_id'' \<mapsto> VString (DiscountReserved.OrderID e),
      ''status'' \<mapsto> VString (DiscountReserved.Status e)]"

definition doc_of_DiscountRejected :: "DiscountRejected \<Rightarrow> doc" where
  "doc_of_DiscountRejected e =
     [''trace_id'' \<mapsto> VString (TraceID e),
      ''type'' \<mapsto> VString (Type e),
      ''timestamp'' \<mapsto> VTime (Timestamp e),
      ''order_id'' \<mapsto> VString (DiscountRejected.OrderID e),
      ''status'' \<mapsto> VString (DiscountRejected.Status e),
      ''reason'' \<mapsto> VString (DiscountRejected.Reason e)]"

definition doc_of_DiscountRelease :: "DiscountRelease \<Rightarrow> doc" where
  "doc_of_DiscountRelease e =
     [''trace_id'' \<mapsto> VString (TraceID e),
      ''type'' \<mapsto> VString (Type e),
      ''timestamp'' \<mapsto> VTime (Timestamp e),
      ''order_id'' \<mapsto> VString (DiscountRelease.OrderID e),
      ''reason'' \<mapsto> VString (DiscountRelease.Reason e)]"

text \<open>The decision built by the quota transaction is one of two structs.\<close>

datatype decision = Reserved DiscountReserved | Rejected DiscountRejected

definition doc_of_decision :: "decision \<Rightarrow> doc" where
  "doc_of_decision x = (case x of
       Reserved e \<Rightarrow> doc_of_DiscountReserved e
     | Rejected e \<Rightarrow> doc_of_DiscountRejected e)"

section \<open>The store and what a handler gets from outside\<close>

record store =
  events :: "doc list"
  quotas :: "string \<rightharpoonup> doc"

text \<open>
  Everything a handler reads from outside the store in one run: the clock
  (\<open>today\<close> is \<open>time.Now().In(ist).Format("2006-01-02")\<close>, \<open>now\<close> is \<open>time.Now()\<close>),
  whether a call into the store fails with an error other than "not found", and
  the integer-to-float conversion of \<open>DataTo\<close>.
\<close>

record env =
  today :: string
  now :: nat
  query_fails :: bool
  get_fails :: bool
  set_fails :: bool
  publish_fails :: bool
  commit_fails :: bool
  i2f :: "int64 \<Rightarrow> float64 option"

text \<open>\<open>tx.Set(ref, {"count": n}, firestore.MergeAll)\<close> writes one field and keeps the others.\<close>

definition set_count_merge :: "store \<Rightarrow> string \<Rightarrow> int64 \<Rightarrow> store" where
  "set_count_merge s key n =
     s\<lparr>quotas := (quotas s)(key \<mapsto>
        (case quotas s key of
           None \<Rightarrow> [''count'' \<mapsto> VInt n]
         | Some d \<Rightarrow> d(''count'' \<mapsto> VInt n)))\<rparr>"

definition add_event :: "store \<Rightarrow> doc \<Rightarrow> store" where
  "add_event s d = s\<lparr>events := events s @ [d]\<rparr>"

text \<open>
  \<open>client.RunTransaction(ctx, fn)\<close>: the writes of \<open>fn\<close> are applied together when
  \<open>fn\<close> returns nil and the commit succeeds, and not at all otherwise. A panic of
  \<open>fn\<close> is not recovered. The result is the store, the log lines and the error.
\<close>

definition RunTransaction ::
  "env \<Rightarrow> store \<Rightarrow> (string list \<times> (err + store)) outcome
     \<Rightarrow> (store \<times> string list \<times> err option) outcome" where
  "RunTransaction e s body = (case body of
       Panicked \<Rightarrow> Panicked
     | Returned (logs, Inl er) \<Rightarrow> Returned (s, logs, Some er)
     | Returned (logs, Inr s') \<Rightarrow>
         (if commit_fails e then Returned (s, logs, Some StoreErr)
          else Returned (s', logs, None)))"

section \<open>services/discount/main.go: the Quota Ledger\<close>

definition QuotaLimit :: int where
  "QuotaLimit = 100"

definition checkDecisionExists :: "env \<Rightarrow> store \<Rightarrow> string \<Rightarrow> err + bool" where
  "checkDecisionExists e s orderID =
     (if query_fails e then Inl StoreErr
      else Inr (length (take 1 (filter
             (\<lambda>d. d ''order_id'' = Some (VString orderID) \<and>
                  (d ''type'' = Some (VString EventTypeDiscountReserved) \<or>
                   d ''type'' = Some (VString EventTypeDiscountRejected)))
             (events s))) > 0))"

text \<open>Step 2 of the transaction: the count of today's document, zero when there is none.\<close>

definition read_count :: "doc option \<Rightarrow> int64" where
  "read_count dopt = (case dopt of
       None \<Rightarrow> 0
     | Some d \<Rightarrow> (case d ''count'' of Some (VInt v) \<Rightarrow> v | _ \<Rightarrow> 0))"

definition quota_decision_body ::
  "env \<Rightarrow> store \<Rightarrow> OrderCreated \<Rightarrow> string list \<times> (err + store)" where
  "quota_decision_body e s event =
     (let quotaRef = today e in
      if get_fails e then ([], Inl StoreErr)
      else
        let currentCount = read_count (quotas s quotaRef) in
        if sint currentCount < QuotaLimit then
          (let newCount = currentCount + 1 in
           if set_fails e then ([], Inl StoreErr)
           else
             let s1 = set_count_merge s quotaRef newCount;
                 decisionEvent = Reserved
                   \<lparr>TraceID = TraceID event, Type = EventTypeDiscountReserved,
                    Timestamp = now e,
                    DiscountReserved.OrderID = OrderCreated.OrderID event,
                    DiscountReserved.Status = ''Approved''\<rparr>
             in if publish_fails e then ([''R2 Quota Reserved''], Inl StoreErr)
                else ([''R2 Quota Reserved''], Inr (add_event s1 (doc_of_decision decisionEvent))))
        else
          (let decisionEvent = Rejected
                   \<lparr>TraceID = TraceID event, Type = EventTypeDiscountRejected,
                    Timestamp = now e,
                    DiscountRejected.OrderID = OrderCreated.OrderID event,
                    DiscountRejected.Status = ''Rejected'',
                    DiscountRejected.Reason =
                      ''Daily discount quota reached. Please try again tomorrow.''\<rparr>
           in if publish_fails e then ([''R2 Quota Exhausted''], Inl StoreErr)
              else ([''R2 Quota Exhausted''], Inr (add_event s (doc_of_decision decisionEvent)))))"

definition runQuotaTransaction ::
  "env \<Rightarrow> store \<Rightarrow> OrderCreated \<Rightarrow> (store \<times> string list \<times> err option) outcome" where
  "runQuotaTransaction e s event = RunTransaction e s (Returned (quota_decision_body e s event))"

definition processOrderEvent :: "env \<Rightarrow> store \<Rightarrow> doc \<Rightarrow> (store \<times> string list) outcome" where
  "processOrderEvent e s d =
     (case dataTo_OrderCreated (i2f e) d of
        Inl _ \<Rightarrow> Returned (s, [''Failed to parse event''])
      | Inr event \<Rightarrow>
          if \<not> IsR1Eligible event then Returned (s, [''Skipping Non-R1-Eligible Order''])
          else
            (case checkDecisionExists e s (OrderCreated.OrderID event) of
               Inl _ \<Rightarrow> Returned (s, [''Processing R1-Eligible Order'',
                                     ''Failed to check existing decision''])
             | Inr exists \<Rightarrow>
                 if exists then Returned (s, [''Processing R1-Eligible Order'',
                                            ''Decision Already Exists''])
                 else
                   (case runQuotaTransaction e s event of
                      Panicked \<Rightarrow> Panicked
                    | Returned (s', logs, None) \<Rightarrow>
                        Returned (s', ''Processing R1-Eligible Order'' # logs)
                    | Returned (s', logs, Some _) \<Rightarrow>
                        Returned (s', ''Processing R1-Eligible Order'' # logs
                                        @ [''Transaction failed'']))))"

definition release_body ::
  "env \<Rightarrow> store \<Rightarrow> DiscountRelease \<Rightarrow> (string list \<times> (err + store)) outcome" where
  "release_body e s event =
     (let quotaRef = today e in
      if get_fails e then Returned ([], Inl StoreErr)
      else
        (case quotas s quotaRef of
           None \<Rightarrow>
             Returned ([''Quota document not found for today, nothing to release''], Inr s)
         | Some d \<Rightarrow>
             (case d ''count'' of
                Some (VInt count) \<Rightarrow>
                  if 0 < sint count then
                    (if set_fails e then Returned ([], Inl StoreErr)
                     else Returned ([''Quota Compensation Executed''],
                                    Inr (set_count_merge s quotaRef (count - 1))))
                  else Returned ([''Quota count is already zero, nothing to decrement''], Inr s)
              | _ \<Rightarrow> Panicked)))"

definition processReleaseEvent :: "env \<Rightarrow> store \<Rightarrow> doc \<Rightarrow> (store \<times> string list) outcome" where
  "processReleaseEvent e s d =
     (case dataTo_DiscountRelease d of
        Inl _ \<Rightarrow> Returned (s, [''Failed to parse release event''])
      | Inr event \<Rightarrow>
          (case RunTransaction e s (release_body e s event) of
             Panicked \<Rightarrow> Panicked
           | Returned (s', logs, None) \<Rightarrow> Returned (s', logs)
           | Returned (s', logs, Some _) \<Rightarrow> Returned (s', logs @ [''Compensation failed''])))"

text \<open>
  The body of the subscription loop of \<open>main\<close>, for one change of a snapshot. The query
  delivers only documents whose \<open>type\<close> is one of the two listed strings and that have
  a \<open>timestamp\<close> field (the \<open>OrderBy\<close>).
\<close>

datatype change_kind = DocumentAdded | DocumentModified | DocumentRemoved

definition ledger_subscribed :: "doc \<Rightarrow> bool" where
  "ledger_subscribed d \<longleftrightarrow>
     (d ''type'' = Some (VString EventTypeOrderCreated) \<or>
      d ''type'' = Some (VString EventTypeDiscountRelease)) \<and>
     d ''timestamp'' \<noteq> None"

definition ledger_on_change ::
  "env \<Rightarrow> store \<Rightarrow> change_kind \<times> doc \<Rightarrow> (store \<times> string list) outcome" where
  "ledger_on_change e s change =
     (if fst change = DocumentAdded then
        (case snd change ''type'' of
           Some (VString eventType) \<Rightarrow>
             if eventType = EventTypeOrderCreated then processOrderEvent e s (snd change)
             else if eventType = EventTypeDiscountRelease then processReleaseEvent e s (snd change)
             else Returned (s, [])
         | _ \<Rightarrow> Panicked)
      else Returned (s, []))"

section \<open>services/order/main.go: the Order Coordinator\<close>

record Service_main =
  Name :: string
  Price :: float64

record OrderRequest =
  UserID :: string
  Name :: string
  Gender :: string
  DOB :: string
  SelectedServices :: "Service_main list"
  BasePrice :: float64
  IsR1Eligible :: bool
  DiscountPercent :: float64
  FinalPrice :: float64
  SimulateFailure :: bool

record OrderResponse =
  OrderID :: string
  Status :: string
  Message :: string

text \<open>
  The HTTP side of \<open>handleOrder\<close>: the method, the body as \<open>json.Decode\<close> reads it
  (\<open>None\<close> when decoding fails), and the reply: the status code with either an encoded
  \<open>OrderResponse\<close> or the plain text of \<open>http.Error\<close>.
\<close>

record http_request =
  Method :: string
  Body :: "OrderRequest option"

datatype reply_body = JsonBody OrderResponse | TextBody string

record http_reply =
  code :: nat
  body :: reply_body

text \<open>
  The coordinator's view of the world: the \<open>events\<close> collection and the process-wide
  \<open>responseMap\<close>. A channel of capacity one is the list of values waiting in it.
\<close>

record coord =
  cevents :: "doc list"
  responseMap :: "string \<rightharpoonup> decision list"

text \<open>
  What one call of \<open>handleOrder\<close> gets from outside: the two fresh UUIDs, the clock,
  whether each \<open>Add\<close> fails, and \<open>fmt2\<close>, the \<open>%.2f\<close> rendering of a \<open>float64\<close>.
\<close>

record cenv =
  new_orderID :: string
  new_traceID :: string
  cnow :: nat
  add_fails :: bool
  comp_add_fails :: bool
  fmt2 :: "float64 \<Rightarrow> string"

text \<open>The rupee sign of the messages, as its three UTF-8 bytes.\<close>

definition rupee :: string where
  "rupee = [CHR 0xE2, CHR 0x82, CHR 0xB9]"

definition convertToEventServices :: "Service_main list \<Rightarrow> Service list" where
  "convertToEventServices services =
     map (\<lambda>s. \<lparr>Service.Name = Service_main.Name s, Service.Price = Service_main.Price s\<rparr>) services"

text \<open>What the \<open>select\<close> of \<open>handleOrder\<close> receives: a decision from the channel, or the timer.\<close>

datatype wait_result = Received decision | TimedOut

text \<open>
  \<open>handleOrder\<close> up to the \<open>select\<close>. \<open>Inl\<close> is a reply sent before waiting (with the
  deferred \<open>delete\<close> already run); \<open>Inr\<close> is the request now waiting on its channel.
\<close>

definition handleOrder_publish ::
  "cenv \<Rightarrow> coord \<Rightarrow> http_request
     \<Rightarrow> coord \<times> string list \<times> (http_reply + OrderRequest)" where
  "handleOrder_publish ce cs r =
     (if Method r \<noteq> ''POST'' then
        (cs, [], Inl \<lparr>code = 405, body = TextBody ''Method not allowed''\<rparr>)
      else
        (case Body r of
           None \<Rightarrow> (cs, [], Inl \<lparr>code = 400, body = TextBody ''Invalid Body''\<rparr>)
         | Some req \<Rightarrow>
             let orderID = new_orderID ce; traceID = new_traceID ce in
             if \<not> OrderRequest.IsR1Eligible req then
               (if SimulateFailure req then
                  (cs, [''Order Received'', ''Simulating Payment Failure (Non-Discount Order)''],
                   Inl \<lparr>code = 500, body = JsonBody
                     \<lparr>OrderResponse.OrderID = orderID, OrderResponse.Status = ''FAILED'',
                      Message = ''Payment processing failed (simulated).''\<rparr>\<rparr>)
                else
                  (cs, [''Order Received'', ''Order Completed Without Discount''],
                   Inl \<lparr>code = 200, body = JsonBody
                     \<lparr>OrderResponse.OrderID = orderID, OrderResponse.Status = ''CONFIRMED'',
                      Message = ''Booking confirmed! Total: '' @ rupee
                        @ fmt2 ce (OrderRequest.FinalPrice req)
                        @ '' (No discount applied)''\<rparr>\<rparr>))
             else
               (let cs1 = cs\<lparr>responseMap := (responseMap cs)(orderID \<mapsto> [])\<rparr>;
                    event =
                      \<lparr>TraceID = traceID, Type = EventTypeOrderCreated, Timestamp = cnow ce,
                       OrderCreated.OrderID = orderID,
                       OrderCreated.UserID = OrderRequest.UserID req,
                       OrderCreated.Name = OrderRequest.Name req,
                       OrderCreated.Gender = OrderRequest.Gender req,
                       OrderCreated.DOB = OrderRequest.DOB req,
                       OrderCreated.SelectedServices =
                         convertToEventServices (OrderRequest.SelectedServices req),
                       OrderCreated.BasePrice = OrderRequest.BasePrice req,
                       OrderCreated.IsR1Eligible = OrderRequest.IsR1Eligible req,
                       OrderCreated.DiscountPercent = OrderRequest.DiscountPercent req,
                       OrderCreated.FinalPrice = OrderRequest.FinalPrice req\<rparr>
                in if add_fails ce then
                     (cs1\<lparr>responseMap := (responseMap cs1)(orderID := None)\<rparr>,
                      [''Order Received'', ''Failed to publish event''],
                      Inl \<lparr>code = 500, body = TextBody ''Internal Server Error''\<rparr>)
                   else
                     (cs1\<lparr>cevents := cevents cs1 @ [doc_of_OrderCreated event]\<rparr>,
                      [''Order Received'', ''Order Event Published - Checking R2 Quota''],
                      Inr req))))"

text \<open>
  \<open>handleOrder\<close> from the \<open>select\<close> on, for the request \<open>req\<close> that is waiting, followed
  by the deferred \<open>delete(responseMap, orderID)\<close>. The result of the compensation
  \<open>Add\<close> is not looked at by the code.
\<close>

definition handleOrder_decide ::
  "cenv \<Rightarrow> coord \<Rightarrow> OrderRequest \<Rightarrow> wait_result \<Rightarrow> coord \<times> string list \<times> http_reply" where
  "handleOrder_decide ce cs req w =
     (let orderID = new_orderID ce; traceID = new_traceID ce;
          dereg = (\<lambda>c. c\<lparr>responseMap := (responseMap c)(orderID := None)\<rparr>) in
      case w of
        Received (Reserved d) \<Rightarrow>
          if SimulateFailure req then
            (let compEvent =
                   \<lparr>TraceID = traceID, Type = EventTypeDiscountRelease, Timestamp = cnow ce,
                    DiscountRelease.OrderID = orderID,
                    DiscountRelease.Reason = ''Payment Processing Failed (Simulated Failure)''\<rparr>;
                 cs1 = (if comp_add_fails ce then cs
                        else cs\<lparr>cevents := cevents cs @ [doc_of_DiscountRelease compEvent]\<rparr>)
             in (dereg cs1,
                 [''Discount Reserved'', ''Simulating Failure after Reservation''],
                 \<lparr>code = 500, body = JsonBody
                   \<lparr>OrderResponse.OrderID = orderID, OrderResponse.Status = ''FAILED'',
                    Message = ''Payment processing failed. Discount quota has been released.''\<rparr>\<rparr>))
          else
            (dereg cs, [''Discount Reserved''],
             \<lparr>code = 200, body = JsonBody
               \<lparr>OrderResponse.OrderID = orderID, OrderResponse.Status = ''CONFIRMED'',
                Message = ''Booking confirmed! Final price: '' @ rupee
                  @ fmt2 ce (OrderRequest.FinalPrice req)
                  @ '' (12% discount applied)''\<rparr>\<rparr>)
      | Received (Rejected d) \<Rightarrow>
          (dereg cs, [''Discount Rejected''],
           \<lparr>code = 429, body = JsonBody
             \<lparr>OrderResponse.OrderID = orderID, OrderResponse.Status = ''REJECTED'',
              Message = DiscountRejected.Reason d\<rparr>\<rparr>)
      | TimedOut \<Rightarrow>
          (dereg cs, [''Timeout waiting for discount decision''],
           \<lparr>code = 504, body = TextBody ''Timeout waiting for discount service''\<rparr>))"

text \<open>The whole of \<open>handleOrder\<close>, given what the \<open>select\<close> receives if it is reached.\<close>

definition handleOrder ::
  "cenv \<Rightarrow> coord \<Rightarrow> http_request \<Rightarrow> wait_result \<Rightarrow> coord \<times> string list \<times> http_reply" where
  "handleOrder ce cs r w =
     (case handleOrder_publish ce cs r of
        (cs1, logs, Inl reply) \<Rightarrow> (cs1, logs, reply)
      | (cs1, logs, Inr req) \<Rightarrow>
          (case handleOrder_decide ce cs1 req w of
             (cs2, logs2, reply) \<Rightarrow> (cs2, logs @ logs2, reply)))"

text \<open>
  The body of the loop of \<open>listenForDecisions\<close>, for one change. A struct filled by a
  \<open>DataTo\<close> that returned an error is only partly set, in an order the runtime picks;
  the caller supplies that struct. A send on a full channel does not return until the
  handler receives.
\<close>

datatype 'a listener_outcome = LPanicked | LBlocked | LReturned 'a

record lenv =
  partial_reserved :: DiscountReserved
  partial_rejected :: DiscountRejected

definition coordinator_subscribed :: "doc \<Rightarrow> bool" where
  "coordinator_subscribed d \<longleftrightarrow>
     (d ''type'' = Some (VString EventTypeDiscountReserved) \<or>
      d ''type'' = Some (VString EventTypeDiscountRejected)) \<and>
     d ''timestamp'' \<noteq> None"

definition chan_send :: "coord \<Rightarrow> string \<Rightarrow> decision list \<Rightarrow> decision \<Rightarrow> coord listener_outcome" where
  "chan_send cs orderID ch x =
     (if length ch < 1 then LReturned (cs\<lparr>responseMap := (responseMap cs)(orderID \<mapsto> ch @ [x])\<rparr>)
      else LBlocked)"

definition listenForDecisions_on_change ::
  "lenv \<Rightarrow> coord \<Rightarrow> change_kind \<times> doc \<Rightarrow> coord listener_outcome" where
  "listenForDecisions_on_change le cs change =
     (if fst change = DocumentAdded then
        (let data = snd change in
         case data ''type'' of
           Some (VString eventType) \<Rightarrow>
             (case data ''order_id'' of
                Some (VString orderID) \<Rightarrow>
                  (case responseMap cs orderID of
                     None \<Rightarrow> LReturned cs
                   | Some ch \<Rightarrow>
                       if eventType = EventTypeDiscountReserved then
                         chan_send cs orderID ch (Reserved
                           (case dataTo_DiscountReserved data of
                              Inr e \<Rightarrow> e | Inl _ \<Rightarrow> partial_reserved le))
                       else
                         chan_send cs orderID ch (Rejected
                           (case dataTo_DiscountRejected data of
                              Inr e \<Rightarrow> e | Inl _ \<Rightarrow> partial_rejected le)))
              | _ \<Rightarrow> LPanicked)
         | _ \<Rightarrow> LPanicked)
      else LReturned cs)"

section \<open>Runs of the Ledger and what is counted in them\<close>

text \<open>
  The subscription loop handles one change after the other; each change has its own
  reading of the clock and of the store's failures. A panic ends the run.
\<close>

fun ledger_run :: "(env \<times> change_kind \<times> doc) list \<Rightarrow> store \<Rightarrow> (store \<times> string list) outcome" where
  "ledger_run [] s = Returned (s, [])"
| "ledger_run (x # xs) s =
     (case ledger_on_change (fst x) s (snd x) of
        Panicked \<Rightarrow> Panicked
      | Returned (s', logs) \<Rightarrow>
          (case ledger_run xs s' of
             Panicked \<Rightarrow> Panicked
           | Returned (s'', logs') \<Rightarrow> Returned (s'', logs @ logs')))"

text \<open>A day's counter document is well formed: absent, or an \<open>int64\<close> count within the limit.\<close>

definition count_ok :: "doc option \<Rightarrow> bool" where
  "count_ok q = (case q of
       None \<Rightarrow> True
     | Some d \<Rightarrow> (case d ''count'' of
                   Some (VInt c) \<Rightarrow> 0 \<le> sint c \<and> sint c \<le> QuotaLimit
                 | _ \<Rightarrow> False))"

definition is_reserved :: "doc \<Rightarrow> bool" where
  "is_reserved d \<longleftrightarrow> d ''type'' = Some (VString EventTypeDiscountReserved)"

definition is_rejected :: "doc \<Rightarrow> bool" where
  "is_rejected d \<longleftrightarrow> d ''type'' = Some (VString EventTypeDiscountRejected)"

definition granted :: "store \<Rightarrow> nat" where
  "granted s = length (filter is_reserved (events s))"

definition decisions_for :: "string \<Rightarrow> store \<Rightarrow> nat" where
  "decisions_for orderID s =
     length (filter (\<lambda>d. d ''order_id'' = Some (VString orderID) \<and> (is_reserved d \<or> is_rejected d))
               (events s))"

section \<open>Events and inputs named in the theorems\<close>

definition granted_doc :: "env \<Rightarrow> OrderCreated \<Rightarrow> doc" where
  "granted_doc e ev = doc_of_DiscountReserved
     \<lparr>TraceID = TraceID ev, Type = EventTypeDiscountReserved, Timestamp = now e,
      DiscountReserved.OrderID = OrderCreated.OrderID ev,
      DiscountReserved.Status = ''Approved''\<rparr>"

definition denied_doc :: "env \<Rightarrow> OrderCreated \<Rightarrow> doc" where
  "denied_doc e ev = doc_of_DiscountRejected
     \<lparr>TraceID = TraceID ev, Type = EventTypeDiscountRejected, Timestamp = now e,
      DiscountRejected.OrderID = OrderCreated.OrderID ev,
      DiscountRejected.Status = ''Rejected'',
      DiscountRejected.Reason = ''Daily discount quota reached. Please try again tomorrow.''\<rparr>"


subsection \<open>Concrete inputs\<close>

text \<open>An environment in which no call into the store fails.\<close>

definition example_env :: "string \<Rightarrow> nat \<Rightarrow> env" where
  "example_env day t =
     \<lparr>today = day, now = t, query_fails = False, get_fails = False, set_fails = False,
      publish_fails = False, commit_fails = False, i2f = (\<lambda>_. None)\<rparr>"

definition example_order :: OrderCreated where
  "example_order =
     \<lparr>TraceID = ''trace-1'', Type = ''OrderCreated'', Timestamp = 1,
      OrderCreated.OrderID = ''order-1'', UserID = ''user-1'', OrderCreated.Name = ''Asha'',
      Gender = ''female'', DOB = ''1990-02-01'', SelectedServices = [],
      BasePrice = 0, IsR1Eligible = True, DiscountPercent = 0, FinalPrice = 0\<rparr>"

definition example_order_doc :: doc where
  "example_order_doc = doc_of_OrderCreated example_order"

text \<open>A store in which the day before is full and today has no counter yet.\<close>

definition example_store :: store where
  "example_store = \<lparr>events = [], quotas = [''2026-01-31'' \<mapsto> [''count'' \<mapsto> VInt 100]]\<rparr>"

definition example_run :: "(env \<times> change_kind \<times> doc) list" where
  "example_run = [(example_env ''2026-02-01'' 2, DocumentAdded, example_order_doc)]"

definition example_release :: DiscountRelease where
  "example_release =
     \<lparr>TraceID = ''trace-1'', Type = ''DiscountRelease'', Timestamp = 5,
      DiscountRelease.OrderID = ''order-1'',
      DiscountRelease.Reason = ''Payment Processing Failed (Simulated Failure)''\<rparr>"

definition example_release_doc :: doc where
  "example_release_doc = doc_of_DiscountRelease example_release"

text \<open>A store whose only decision is a denial of order-1, with one unit reserved today.\<close>

definition example_store_denied :: store where
  "example_store_denied =
     \<lparr>events = [denied_doc (example_env ''2026-02-01'' 3) example_order],
      quotas = [''2026-02-01'' \<mapsto> [''count'' \<mapsto> VInt 1]]\<rparr>"

text \<open>The store after order-1 was granted on 2026-02-01, starting from \<open>example_store\<close>.\<close>

definition example_store_granted :: store where
  "example_store_granted =
     add_event (set_count_merge example_store ''2026-02-01'' 1)
       (granted_doc (example_env ''2026-02-01'' 2) example_order)"

subsection \<open>The events the Coordinator writes\<close>

definition published_doc :: "cenv \<Rightarrow> OrderRequest \<Rightarrow> doc" where
  "published_doc ce req = doc_of_OrderCreated
     \<lparr>TraceID = new_traceID ce, Type = EventTypeOrderCreated, Timestamp = cnow ce,
      OrderCreated.OrderID = new_orderID ce,
      OrderCreated.UserID = OrderRequest.UserID req,
      OrderCreated.Name = OrderRequest.Name req,
      OrderCreated.Gender = OrderRequest.Gender req,
      OrderCreated.DOB = OrderRequest.DOB req,
      OrderCreated.SelectedServices = convertToEventServices (OrderRequest.SelectedServices req),
      OrderCreated.BasePrice = OrderRequest.BasePrice req,
      OrderCreated.IsR1Eligible = OrderRequest.IsR1Eligible req,
      OrderCreated.DiscountPercent = OrderRequest.DiscountPercent req,
      OrderCreated.FinalPrice = OrderRequest.FinalPrice req\<rparr>"

definition compensation_doc :: "cenv \<Rightarrow> doc" where
  "compensation_doc ce = doc_of_DiscountRelease
     \<lparr>TraceID = new_traceID ce, Type = EventTypeDiscountRelease, Timestamp = cnow ce,
      DiscountRelease.OrderID = new_orderID ce,
      DiscountRelease.Reason = ''Payment Processing Failed (Simulated Failure)''\<rparr>"

definition example_cenv :: cenv where
  "example_cenv =
     \<lparr>new_orderID = ''order-1'', new_traceID = ''trace-1'', cnow = 1,
      add_fails = False, comp_add_fails = False, fmt2 = (\<lambda>_. ''0.00'')\<rparr>"

definition example_request :: "bool \<Rightarrow> bool \<Rightarrow> OrderRequest" where
  "example_request eligible fail =
     \<lparr>OrderRequest.UserID = ''user-1'', OrderRequest.Name = ''Asha'',
      OrderRequest.Gender = ''female'', OrderRequest.DOB = ''1990-02-01'',
      OrderRequest.SelectedServices = [], OrderRequest.BasePrice = 0,
      OrderRequest.IsR1Eligible = eligible, OrderRequest.DiscountPercent = 0,
      OrderRequest.FinalPrice = 0, SimulateFailure = fail\<rparr>"

definition example_post :: "OrderRequest \<Rightarrow> http_request" where
  "example_post req = \<lparr>Method = ''POST'', Body = Some req\<rparr>"

definition example_coord :: coord where
  "example_coord = \<lparr>cevents = [], responseMap = Map.empty\<rparr>"

definition example_reserved :: DiscountReserved where
  "example_reserved =
     \<lparr>TraceID = ''trace-1'', Type = ''DiscountReserved'', Timestamp = 3,
      DiscountReserved.OrderID = ''order-1'', DiscountReserved.Status = ''Approved''\<rparr>"

definition example_rejected :: DiscountRejected where
  "example_rejected =
     \<lparr>TraceID = ''trace-1'', Type = ''DiscountRejected'', Timestamp = 3,
      DiscountRejected.OrderID = ''order-1'', DiscountRejected.Status = ''Rejected'',
      DiscountRejected.Reason = ''Daily discount quota reached. Please try again tomorrow.''\<rparr>"

text \<open>Event documents whose \<open>order_id\<close> is an integer.\<close>

definition malformed_order_doc :: doc where
  "malformed_order_doc =
     [''type'' \<mapsto> VString ''OrderCreated'', ''timestamp'' \<mapsto> VTime 1, ''order_id'' \<mapsto> VInt 42]"

definition malformed_decision_doc :: doc where
  "malformed_decision_doc =
     [''type'' \<mapsto> VString ''DiscountReserved'', ''timestamp'' \<mapsto> VTime 1,
      ''order_id'' \<mapsto> VInt 42]"

definition example_lenv :: lenv where
  "example_lenv = \<lparr>partial_reserved = example_reserved, partial_rejected = example_rejected\<rparr>"

text \<open>The Coordinator while the handler of order-1 waits on its channel.\<close>

definition example_coord_waiting :: coord where
  "example_coord_waiting = \<lparr>cevents = [], responseMap = [''order-1'' \<mapsto> []]\<rparr>"

section \<open>Facts about the store updates\<close>

lemma sint_succ:
  fixes c :: int64
  assumes "sint c < 100"
  shows "sint (c + 1) = sint c + 1"
proof -
  have lo: "- (2 ^ 63) \<le> sint c" using sint_ge [of c] by simp
  have "sint (c + 1) = signed_take_bit 63 (sint c + 1)"
    by (simp add: sint_word_ariths)
  also have "\<dots> = sint c + 1"
    using assms lo by (simp add: signed_take_bit_int_eq_self)
  finally show ?thesis .
qed

lemma sint_pred:
  fixes c :: int64
  assumes "0 < sint c"
  shows "sint (c - 1) = sint c - 1"
proof -
  have hi: "sint c < 2 ^ 63" using sint_lt [of c] by simp
  have "sint (c - 1) = signed_take_bit 63 (sint c - 1)"
    by (simp add: sint_word_ariths)
  also have "\<dots> = sint c - 1"
    using assms hi by (simp add: signed_take_bit_int_eq_self)
  finally show ?thesis .
qed

lemma read_count_set: "read_count (quotas (set_count_merge s k n) k) = n"
  by (simp add: set_count_merge_def read_count_def split: option.splits)

lemma quotas_set_other: "k' \<noteq> k \<Longrightarrow> quotas (set_count_merge s k n) k' = quotas s k'"
  by (simp add: set_count_merge_def)

lemma quotas_add_event: "quotas (add_event s d) = quotas s"
  by (simp add: add_event_def)

lemma events_add_event: "events (add_event s d) = events s @ [d]"
  by (simp add: add_event_def)

lemma events_set_count: "events (set_count_merge s k n) = events s"
  by (simp add: set_count_merge_def)

lemma count_ok_set:
  "count_ok (quotas (set_count_merge s k n) k) \<longleftrightarrow> 0 \<le> sint n \<and> sint n \<le> QuotaLimit"
  by (simp add: set_count_merge_def count_ok_def split: option.splits)

lemma count_ok_read:
  "count_ok q \<Longrightarrow> 0 \<le> sint (read_count q) \<and> sint (read_count q) \<le> QuotaLimit"
  by (auto simp: count_ok_def read_count_def QuotaLimit_def split: option.splits fsval.splits)

section \<open>The quota transaction\<close>

lemma runQuota_ok:
  assumes "\<not> get_fails e" "\<not> set_fails e" "\<not> publish_fails e" "\<not> commit_fails e"
  shows "runQuotaTransaction e s ev =
     (if sint (read_count (quotas s (today e))) < QuotaLimit
      then Returned (add_event (set_count_merge s (today e) (read_count (quotas s (today e)) + 1))
                       (granted_doc e ev), [''R2 Quota Reserved''], None)
      else Returned (add_event s (denied_doc e ev), [''R2 Quota Exhausted''], None))"
  using assms
  by (simp add: runQuotaTransaction_def RunTransaction_def quota_decision_body_def Let_def
        doc_of_decision_def granted_doc_def denied_doc_def)

lemma runQuota_cases:
  "\<exists>s' logs r. runQuotaTransaction e s ev = Returned (s', logs, r) \<and>
     ((s' = s \<and> r \<noteq> None) \<or>
      (r = None \<and> sint (read_count (quotas s (today e))) < QuotaLimit \<and>
        s' = add_event (set_count_merge s (today e) (read_count (quotas s (today e)) + 1))
               (granted_doc e ev)) \<or>
      (r = None \<and> \<not> sint (read_count (quotas s (today e))) < QuotaLimit \<and>
        s' = add_event s (denied_doc e ev)))"
  by (simp add: runQuotaTransaction_def RunTransaction_def quota_decision_body_def Let_def
        doc_of_decision_def granted_doc_def denied_doc_def)

lemma processOrder_cases:
  "\<exists>s' logs. processOrderEvent e s d = Returned (s', logs) \<and>
     (s' = s \<or>
      (\<exists>ev. dataTo_OrderCreated (i2f e) d = Inr ev \<and> OrderCreated.IsR1Eligible ev \<and>
         checkDecisionExists e s (OrderCreated.OrderID ev) = Inr False \<and>
         ((sint (read_count (quotas s (today e))) < QuotaLimit \<and>
           s' = add_event (set_count_merge s (today e) (read_count (quotas s (today e)) + 1))
                  (granted_doc e ev)) \<or>
          (\<not> sint (read_count (quotas s (today e))) < QuotaLimit \<and>
           s' = add_event s (denied_doc e ev)))))"
proof (cases "dataTo_OrderCreated (i2f e) d")
  case (Inl a)
  then show ?thesis by (simp add: processOrderEvent_def)
next
  case (Inr ev)
  show ?thesis
  proof (cases "OrderCreated.IsR1Eligible ev \<and> checkDecisionExists e s (OrderCreated.OrderID ev) = Inr False")
    case False
    then show ?thesis using Inr
      by (auto simp: processOrderEvent_def split: sum.splits)
  next
    case True
    from runQuota_cases [of e s ev] obtain s' logs r where
      run: "runQuotaTransaction e s ev = Returned (s', logs, r)" and
      c: "(s' = s \<and> r \<noteq> None) \<or>
      (r = None \<and> sint (read_count (quotas s (today e))) < QuotaLimit \<and>
        s' = add_event (set_count_merge s (today e) (read_count (quotas s (today e)) + 1))
               (granted_doc e ev)) \<or>
      (r = None \<and> \<not> sint (read_count (quotas s (today e))) < QuotaLimit \<and>
        s' = add_event s (denied_doc e ev))" by blast
    have "\<exists>logs'. processOrderEvent e s d = Returned (s', logs')"
      using Inr True run by (cases r) (simp_all add: processOrderEvent_def)
    then show ?thesis using c Inr True by blast
  qed
qed


section \<open>The release transaction\<close>

lemma release_cases:
  assumes "dataTo_DiscountRelease d = Inr rel"
  shows "processReleaseEvent e s d =
     (if get_fails e then Returned (s, [''Compensation failed''])
      else case quotas s (today e) of
        None \<Rightarrow> (if commit_fails e
                 then Returned (s, [''Quota document not found for today, nothing to release'',
                                    ''Compensation failed''])
                 else Returned (s, [''Quota document not found for today, nothing to release'']))
      | Some q \<Rightarrow> (case q ''count'' of
          Some (VInt c) \<Rightarrow>
            if 0 < sint c then
              (if set_fails e then Returned (s, [''Compensation failed''])
               else if commit_fails e
                 then Returned (s, [''Quota Compensation Executed'', ''Compensation failed''])
                 else Returned (set_count_merge s (today e) (c - 1),
                                [''Quota Compensation Executed'']))
            else (if commit_fails e
                 then Returned (s, [''Quota count is already zero, nothing to decrement'',
                                    ''Compensation failed''])
                 else Returned (s, [''Quota count is already zero, nothing to decrement'']))
        | _ \<Rightarrow> Panicked))"
  using assms
  by (simp add: processReleaseEvent_def RunTransaction_def release_body_def Let_def
        split: option.splits fsval.splits)

lemma release_unparsed:
  "dataTo_DiscountRelease d = Inl x \<Longrightarrow>
     processReleaseEvent e s d = Returned (s, [''Failed to parse release event''])"
  by (simp add: processReleaseEvent_def)

lemma release_effect:
  assumes "count_ok (quotas s (today e))"
  shows "\<exists>s' logs. processReleaseEvent e s d = Returned (s', logs) \<and>
     (s' = s \<or>
      (\<exists>q c. quotas s (today e) = Some q \<and> q ''count'' = Some (VInt c) \<and> 0 < sint c \<and>
         s' = set_count_merge s (today e) (c - 1)))"
proof (cases "dataTo_DiscountRelease d")
  case (Inl a)
  then show ?thesis by (simp add: release_unparsed)
next
  case (Inr rel)
  show ?thesis
    using assms
    by (auto simp: release_cases [OF Inr] count_ok_def split: option.splits fsval.splits)
qed

section \<open>The counter invariant\<close>

lemma order_keeps_count_ok:
  assumes "count_ok (quotas s k)" "processOrderEvent e s d = Returned (s', logs)"
  shows "count_ok (quotas s' k)"
proof -
  from processOrder_cases [of e s d] assms(2)
  consider "s' = s"
    | ev where "sint (read_count (quotas s (today e))) < QuotaLimit"
        "s' = add_event (set_count_merge s (today e) (read_count (quotas s (today e)) + 1))
                  (granted_doc e ev)"
    | ev where "s' = add_event s (denied_doc e ev)"
    by auto
  then show ?thesis
  proof cases
    case 1
    then show ?thesis using assms(1) by simp
  next
    case 2
    show ?thesis
    proof (cases "k = today e")
      case True
      with assms(1) have b: "0 \<le> sint (read_count (quotas s (today e)))"
        using count_ok_read by blast
      from 2(1) have lt: "sint (read_count (quotas s (today e))) < 100"
        by (simp add: QuotaLimit_def)
      have "count_ok (quotas (set_count_merge s (today e) (read_count (quotas s (today e)) + 1)) (today e))"
        using b lt by (simp add: count_ok_set sint_succ [OF lt] QuotaLimit_def)
      then show ?thesis using 2(2) True by (simp add: quotas_add_event)
    next
      case False
      then show ?thesis using 2(2) assms(1) by (simp add: quotas_add_event quotas_set_other)
    qed
  next
    case 3
    then show ?thesis using assms(1) by (simp add: quotas_add_event)
  qed
qed

lemma release_keeps_count_ok:
  assumes "count_ok (quotas s k)" "processReleaseEvent e s d = Returned (s', logs)"
    and today_ok: "count_ok (quotas s (today e))"
  shows "count_ok (quotas s' k)"
proof -
  from release_effect [OF today_ok, of d] assms(2)
  consider "s' = s"
    | q c where "quotas s (today e) = Some q" "q ''count'' = Some (VInt c)" "0 < sint c"
        "s' = set_count_merge s (today e) (c - 1)"
    by auto
  then show ?thesis
  proof cases
    case 1
    then show ?thesis using assms(1) by simp
  next
    case 2
    show ?thesis
    proof (cases "k = today e")
      case True
      from today_ok 2(1,2) have "sint c \<le> QuotaLimit"
        by (simp add: count_ok_def)
      then have "count_ok (quotas (set_count_merge s (today e) (c - 1)) (today e))"
        using 2(3) by (simp add: count_ok_set sint_pred)
      then show ?thesis using 2(4) True by simp
    next
      case False
      then show ?thesis using 2(4) assms(1) by (simp add: quotas_set_other)
    qed
  qed
qed

lemma on_change_keeps_count_ok:
  assumes inv: "\<forall>k. count_ok (quotas s k)" and sub: "ledger_subscribed (snd ch)"
  shows "\<exists>s' logs. ledger_on_change e s ch = Returned (s', logs) \<and> (\<forall>k. count_ok (quotas s' k))"
proof (cases "fst ch = DocumentAdded")
  case False
  then show ?thesis using inv by (simp add: ledger_on_change_def)
next
  case True
  from sub consider "snd ch ''type'' = Some (VString EventTypeOrderCreated)"
    | "snd ch ''type'' = Some (VString EventTypeDiscountRelease)"
    by (auto simp: ledger_subscribed_def)
  then show ?thesis
  proof cases
    case 1
    then have eq: "ledger_on_change e s ch = processOrderEvent e s (snd ch)"
      using True by (simp add: ledger_on_change_def)
    from processOrder_cases [of e s "snd ch"] obtain s' logs where
      r: "processOrderEvent e s (snd ch) = Returned (s', logs)" by blast
    then have "\<forall>k. count_ok (quotas s' k)"
      using inv order_keeps_count_ok by blast
    then show ?thesis using eq r by simp
  next
    case 2
    then have eq: "ledger_on_change e s ch = processReleaseEvent e s (snd ch)"
      using True
      by (simp add: ledger_on_change_def EventTypeDiscountRelease_def EventTypeOrderCreated_def)
    from inv have t: "count_ok (quotas s (today e))" by blast
    from release_effect [OF t, of "snd ch"] obtain s' logs where
      r: "processReleaseEvent e s (snd ch) = Returned (s', logs)" by blast
    then have "\<forall>k. count_ok (quotas s' k)"
      using inv t release_keeps_count_ok by blast
    then show ?thesis using eq r by simp
  qed
qed

lemma run_keeps_count_ok:
  assumes "\<forall>k. count_ok (quotas s k)" "\<forall>x\<in>set xs. ledger_subscribed (snd (snd x))"
  shows "\<exists>s' logs. ledger_run xs s = Returned (s', logs) \<and> (\<forall>k. count_ok (quotas s' k))"
  using assms
proof (induction xs arbitrary: s)
  case Nil
  then show ?case by simp
next
  case (Cons x xs)
  from Cons.prems have sub: "ledger_subscribed (snd (snd x))" by simp
  from on_change_keeps_count_ok [OF Cons.prems(1) sub, of "fst x"] obtain s1 l1 where
    st: "ledger_on_change (fst x) s (snd x) = Returned (s1, l1)" and
    inv1: "\<forall>k. count_ok (quotas s1 k)" by blast
  from Cons.IH [OF inv1] Cons.prems(2) obtain s2 l2 where
    r: "ledger_run xs s1 = Returned (s2, l2)" and inv2: "\<forall>k. count_ok (quotas s2 k)"
    by auto
  show ?case using st r inv2 by simp
qed


section \<open>Counting grants\<close>

lemma granted_add_event:
  "granted (add_event s d) = granted s + (if is_reserved d then 1 else 0)"
  by (simp add: granted_def add_event_def)

lemma granted_set_count: "granted (set_count_merge s k n) = granted s"
  by (simp add: granted_def set_count_merge_def)

lemma is_reserved_granted_doc: "is_reserved (granted_doc e ev)"
  by (simp add: is_reserved_def granted_doc_def doc_of_DiscountReserved_def)

lemma not_reserved_denied_doc: "\<not> is_reserved (denied_doc e ev)"
  by (simp add: is_reserved_def denied_doc_def doc_of_DiscountRejected_def
        EventTypeDiscountReserved_def EventTypeDiscountRejected_def)



section \<open>The idempotency check\<close>

lemma check_decisions:
  "\<not> query_fails e \<Longrightarrow> checkDecisionExists e s orderID = Inr (0 < decisions_for orderID s)"
  by (cases "filter (\<lambda>d. d ''order_id'' = Some (VString orderID) \<and>
                  (d ''type'' = Some (VString EventTypeDiscountReserved) \<or>
                   d ''type'' = Some (VString EventTypeDiscountRejected))) (events s)")
     (simp_all add: checkDecisionExists_def decisions_for_def is_reserved_def is_rejected_def)

lemma check_fails: "query_fails e \<Longrightarrow> checkDecisionExists e s orderID = Inl StoreErr"
  by (simp add: checkDecisionExists_def)

lemma decisions_add_event:
  "decisions_for orderID (add_event s d) = decisions_for orderID s +
     (if d ''order_id'' = Some (VString orderID) \<and> (is_reserved d \<or> is_rejected d) then 1 else 0)"
  by (simp add: decisions_for_def add_event_def)

lemma decisions_set_count: "decisions_for orderID (set_count_merge s k n) = decisions_for orderID s"
  by (simp add: decisions_for_def set_count_merge_def)

lemma granted_doc_fields:
  "granted_doc e ev ''type'' = Some (VString ''DiscountReserved'')"
  "granted_doc e ev ''order_id'' = Some (VString (OrderCreated.OrderID ev))"
  "granted_doc e ev ''trace_id'' = Some (VString (TraceID ev))"
  "granted_doc e ev ''status'' = Some (VString ''Approved'')"
  by (simp_all add: granted_doc_def doc_of_DiscountReserved_def EventTypeDiscountReserved_def)

lemma denied_doc_fields:
  "denied_doc e ev ''type'' = Some (VString ''DiscountRejected'')"
  "denied_doc e ev ''order_id'' = Some (VString (OrderCreated.OrderID ev))"
  "denied_doc e ev ''trace_id'' = Some (VString (TraceID ev))"
  "denied_doc e ev ''reason'' =
     Some (VString ''Daily discount quota reached. Please try again tomorrow.'')"
  by (simp_all add: denied_doc_def doc_of_DiscountRejected_def EventTypeDiscountRejected_def)

lemma decision_docs_count:
  "granted_doc e ev ''order_id'' = Some (VString (OrderCreated.OrderID ev)) \<and>
     is_reserved (granted_doc e ev)"
  "denied_doc e ev ''order_id'' = Some (VString (OrderCreated.OrderID ev)) \<and>
     is_rejected (denied_doc e ev)"
  by (simp_all add: granted_doc_fields denied_doc_fields is_reserved_def is_rejected_def
        EventTypeDiscountReserved_def EventTypeDiscountRejected_def)

lemma thenE_Inr: "thenE r f = Inr y \<Longrightarrow> \<exists>x. r = Inr x \<and> f x = Inr y"
  by (cases r) (simp_all add: thenE_def)

lemma dataTo_order_id:
  assumes "dataTo_OrderCreated f d = Inr ev"
  shows "dec_string (d ''order_id'') = Inr (OrderCreated.OrderID ev)"
  using assms by (auto simp: dataTo_OrderCreated_def thenE_def split: sum.splits)

lemma processOrder_skips_decided:
  assumes parsed: "dataTo_OrderCreated f d = Inr ev"
    and dec: "0 < decisions_for (OrderCreated.OrderID ev) s"
  shows "\<exists>logs. processOrderEvent e s d = Returned (s, logs)"
proof (cases "dataTo_OrderCreated (i2f e) d")
  case (Inl a)
  then show ?thesis by (simp add: processOrderEvent_def)
next
  case (Inr ev2)
  have same: "OrderCreated.OrderID ev2 = OrderCreated.OrderID ev"
    using dataTo_order_id [OF parsed] dataTo_order_id [OF Inr] by simp
  show ?thesis
  proof (cases "query_fails e")
    case True
    then show ?thesis using Inr by (simp add: processOrderEvent_def check_fails)
  next
    case False
    then show ?thesis using Inr same dec
      by (simp add: processOrderEvent_def check_decisions)
  qed
qed

lemma processOrder_ok:
  assumes parsed: "dataTo_OrderCreated (i2f e) d = Inr ev"
    and el: "OrderCreated.IsR1Eligible ev"
    and fresh: "decisions_for (OrderCreated.OrderID ev) s = 0"
    and ok: "\<not> query_fails e" "\<not> get_fails e" "\<not> set_fails e" "\<not> publish_fails e"
      "\<not> commit_fails e"
  shows "processOrderEvent e s d =
     (if sint (read_count (quotas s (today e))) < QuotaLimit
      then Returned (add_event (set_count_merge s (today e) (read_count (quotas s (today e)) + 1))
                       (granted_doc e ev),
                     [''Processing R1-Eligible Order'', ''R2 Quota Reserved''])
      else Returned (add_event s (denied_doc e ev),
                     [''Processing R1-Eligible Order'', ''R2 Quota Exhausted'']))"
  using parsed el fresh ok(1)
  by (simp add: processOrderEvent_def check_decisions runQuota_ok [OF ok(2-5)])

section \<open>Repeated releases\<close>

lemma release_step_floor:
  assumes parsed: "dataTo_DiscountRelease d = Inr rel"
    and ok: "\<not> get_fails e" "\<not> set_fails e" "\<not> commit_fails e"
    and inv: "count_ok (quotas s (today e))"
  shows "\<exists>s' logs. processReleaseEvent e s d = Returned (s', logs) \<and>
     sint (read_count (quotas s' (today e)))
       = max 0 (sint (read_count (quotas s (today e))) - 1) \<and>
     count_ok (quotas s' (today e))"
proof (cases "quotas s (today e)")
  case None
  then show ?thesis using ok inv
    by (simp add: release_cases [OF parsed] read_count_def)
next
  case (Some q)
  with inv obtain c where c: "q ''count'' = Some (VInt c)" "0 \<le> sint c" "sint c \<le> QuotaLimit"
    by (auto simp: count_ok_def split: option.splits fsval.splits)
  have rc: "read_count (quotas s (today e)) = c"
    using Some c(1) by (simp add: read_count_def)
  show ?thesis
  proof (cases "0 < sint c")
    case True
    then show ?thesis using ok Some c rc
      by (simp add: release_cases [OF parsed] read_count_set count_ok_set sint_pred)
  next
    case False
    with c have "sint c = 0" by simp
    then show ?thesis using ok Some c inv rc
      by (simp add: release_cases [OF parsed])
  qed
qed

lemma release_run_floor:
  assumes parsed: "dataTo_DiscountRelease d = Inr rel"
    and ty: "d ''type'' = Some (VString EventTypeDiscountRelease)"
    and ok: "\<forall>e\<in>set es. today e = day \<and> \<not> get_fails e \<and> \<not> set_fails e \<and> \<not> commit_fails e"
    and inv: "count_ok (quotas s day)"
  shows "\<exists>s' logs. ledger_run (map (\<lambda>e. (e, DocumentAdded, d)) es) s = Returned (s', logs) \<and>
     sint (read_count (quotas s' day))
       = max 0 (sint (read_count (quotas s day)) - int (length es)) \<and>
     count_ok (quotas s' day)"
  using ok inv
proof (induction es arbitrary: s)
  case Nil
  from count_ok_read [OF Nil.prems(2)] show ?case using Nil.prems(2) by simp
next
  case (Cons e es)
  from Cons.prems(1) have e: "today e = day" "\<not> get_fails e" "\<not> set_fails e" "\<not> commit_fails e"
    by simp_all
  have eq: "ledger_on_change e s (DocumentAdded, d) = processReleaseEvent e s d"
    using ty
    by (simp add: ledger_on_change_def EventTypeDiscountRelease_def EventTypeOrderCreated_def)
  from Cons.prems(2) e(1) have inv0: "count_ok (quotas s (today e))" by simp
  from release_step_floor [OF parsed e(2-4) inv0] obtain s1 l1 where
    st: "processReleaseEvent e s d = Returned (s1, l1)" and
    v1: "sint (read_count (quotas s1 day)) = max 0 (sint (read_count (quotas s day)) - 1)" and
    inv1: "count_ok (quotas s1 day)"
    using e(1) by auto
  from Cons.prems(1) have rest:
    "\<forall>e\<in>set es. today e = day \<and> \<not> get_fails e \<and> \<not> set_fails e \<and> \<not> commit_fails e"
    by simp
  from Cons.IH [OF rest inv1] obtain s2 l2 where
    r: "ledger_run (map (\<lambda>e. (e, DocumentAdded, d)) es) s1 = Returned (s2, l2)" and
    v2: "sint (read_count (quotas s2 day))
           = max 0 (sint (read_count (quotas s1 day)) - int (length es))" and
    inv2: "count_ok (quotas s2 day)"
    by blast
  have "ledger_run (map (\<lambda>e. (e, DocumentAdded, d)) (e # es)) s = Returned (s2, l1 @ l2)"
    using eq st r by simp
  moreover have "sint (read_count (quotas s2 day))
       = max 0 (sint (read_count (quotas s day)) - int (length (e # es)))"
    using v1 v2 by simp
  ultimately show ?case using inv2 by blast
qed

section \<open>The concrete inputs\<close>

lemma example_env_simps:
  "today (example_env day t) = day" "now (example_env day t) = t"
  "\<not> query_fails (example_env day t)" "\<not> get_fails (example_env day t)"
  "\<not> set_fails (example_env day t)" "\<not> publish_fails (example_env day t)"
  "\<not> commit_fails (example_env day t)"
  by (simp_all add: example_env_def)

lemma example_order_parses:
  "dataTo_OrderCreated f example_order_doc = Inr example_order"
  by (simp add: example_order_doc_def doc_of_OrderCreated_def example_order_def
        dataTo_OrderCreated_def thenE_def dec_string_def dec_time_def dec_bool_def
        dec_float_def dec_services_def)

lemma example_release_parses:
  "dataTo_DiscountRelease example_release_doc = Inr example_release"
  by (simp add: example_release_doc_def doc_of_DiscountRelease_def example_release_def
        dataTo_DiscountRelease_def thenE_def dec_string_def dec_time_def)

lemma example_store_counts:
  "read_count (quotas example_store ''2026-02-01'') = 0"
  "read_count (quotas example_store ''2026-01-31'') = 100"
  "events example_store = []"
  by (simp_all add: example_store_def read_count_def)

lemma set_count_lookup:
  "\<exists>q. quotas (set_count_merge s k n) k = Some q \<and> q ''count'' = Some (VInt n)"
  by (simp add: set_count_merge_def split: option.splits)

lemma example_store_denied_simps:
  "quotas example_store_denied ''2026-02-01'' = Some [''count'' \<mapsto> VInt 1]"
  "events example_store_denied = [denied_doc (example_env ''2026-02-01'' 3) example_order]"
  by (simp_all add: example_store_denied_def)

section \<open>Properties of the two services\<close>



text \<open>
  C2. When no call into the store fails, the quota transaction for an order event reads
  the counter of today's date key, an absent document counting as zero. Below the limit
  it commits the counter plus one, touches no other day, and appends one
  \<open>DiscountReserved\<close> event; otherwise it leaves all counters as they are and appends
  one \<open>DiscountRejected\<close> event whose reason is the fixed sentence. Either event carries
  the order id and the trace id of the order event. \<open>processOrderEvent\<close> ends in that
  same store for an eligible event that has no decision yet.
\<close>

theorem quota_transaction_decides:
  assumes ok: "\<not> get_fails e" "\<not> set_fails e" "\<not> publish_fails e" "\<not> commit_fails e"
  shows "(quotas s (today e) = None \<longrightarrow> read_count (quotas s (today e)) = 0)
     \<and> (sint (read_count (quotas s (today e))) < QuotaLimit \<longrightarrow>
          (\<exists>s'. runQuotaTransaction e s ev = Returned (s', [''R2 Quota Reserved''], None) \<and>
             read_count (quotas s' (today e)) = read_count (quotas s (today e)) + 1 \<and>
             sint (read_count (quotas s' (today e)))
               = sint (read_count (quotas s (today e))) + 1 \<and>
             (\<forall>k. k \<noteq> today e \<longrightarrow> quotas s' k = quotas s k) \<and>
             events s' = events s @ [granted_doc e ev]))
     \<and> (\<not> sint (read_count (quotas s (today e))) < QuotaLimit \<longrightarrow>
          (\<exists>s'. runQuotaTransaction e s ev = Returned (s', [''R2 Quota Exhausted''], None) \<and>
             quotas s' = quotas s \<and>
             events s' = events s @ [denied_doc e ev]))
     \<and> granted_doc e ev ''type'' = Some (VString ''DiscountReserved'')
     \<and> granted_doc e ev ''order_id'' = Some (VString (OrderCreated.OrderID ev))
     \<and> granted_doc e ev ''trace_id'' = Some (VString (TraceID ev))
     \<and> denied_doc e ev ''type'' = Some (VString ''DiscountRejected'')
     \<and> denied_doc e ev ''reason''
          = Some (VString ''Daily discount quota reached. Please try again tomorrow.'')
     \<and> denied_doc e ev ''order_id'' = Some (VString (OrderCreated.OrderID ev))
     \<and> denied_doc e ev ''trace_id'' = Some (VString (TraceID ev))
     \<and> (\<forall>d. dataTo_OrderCreated (i2f e) d = Inr ev \<and> OrderCreated.IsR1Eligible ev \<and>
              \<not> query_fails e \<and> decisions_for (OrderCreated.OrderID ev) s = 0 \<longrightarrow>
          (\<exists>s' logs l. runQuotaTransaction e s ev = Returned (s', logs, None) \<and>
             processOrderEvent e s d = Returned (s', l)))"
proof -
  let ?c = "read_count (quotas s (today e))"
  have absent: "quotas s (today e) = None \<longrightarrow> ?c = 0"
    by (simp add: read_count_def)
  have grant: "sint ?c < QuotaLimit \<longrightarrow>
          (\<exists>s'. runQuotaTransaction e s ev = Returned (s', [''R2 Quota Reserved''], None) \<and>
             read_count (quotas s' (today e)) = ?c + 1 \<and>
             sint (read_count (quotas s' (today e))) = sint ?c + 1 \<and>
             (\<forall>k. k \<noteq> today e \<longrightarrow> quotas s' k = quotas s k) \<and>
             events s' = events s @ [granted_doc e ev])"
  proof
    assume lt: "sint ?c < QuotaLimit"
    then have lt': "sint ?c < 100" by (simp add: QuotaLimit_def)
    have "runQuotaTransaction e s ev =
        Returned (add_event (set_count_merge s (today e) (?c + 1)) (granted_doc e ev),
                  [''R2 Quota Reserved''], None)"
      using lt by (simp add: runQuota_ok [OF ok])
    then show "\<exists>s'. runQuotaTransaction e s ev = Returned (s', [''R2 Quota Reserved''], None) \<and>
             read_count (quotas s' (today e)) = ?c + 1 \<and>
             sint (read_count (quotas s' (today e))) = sint ?c + 1 \<and>
             (\<forall>k. k \<noteq> today e \<longrightarrow> quotas s' k = quotas s k) \<and>
             events s' = events s @ [granted_doc e ev]"
      by (simp add: quotas_add_event read_count_set quotas_set_other events_add_event
            events_set_count sint_succ [OF lt'])
  qed
  have deny: "\<not> sint ?c < QuotaLimit \<longrightarrow>
          (\<exists>s'. runQuotaTransaction e s ev = Returned (s', [''R2 Quota Exhausted''], None) \<and>
             quotas s' = quotas s \<and> events s' = events s @ [denied_doc e ev])"
    by (simp add: runQuota_ok [OF ok] quotas_add_event events_add_event)
  have handler: "\<forall>d. dataTo_OrderCreated (i2f e) d = Inr ev \<and> OrderCreated.IsR1Eligible ev \<and>
              \<not> query_fails e \<and> decisions_for (OrderCreated.OrderID ev) s = 0 \<longrightarrow>
          (\<exists>s' logs l. runQuotaTransaction e s ev = Returned (s', logs, None) \<and>
             processOrderEvent e s d = Returned (s', l))"
  proof (intro allI impI)
    fix d
    assume a: "dataTo_OrderCreated (i2f e) d = Inr ev \<and> OrderCreated.IsR1Eligible ev \<and>
              \<not> query_fails e \<and> decisions_for (OrderCreated.OrderID ev) s = 0"
    then have "processOrderEvent e s d =
     (if sint ?c < QuotaLimit
      then Returned (add_event (set_count_merge s (today e) (?c + 1)) (granted_doc e ev),
                     [''Processing R1-Eligible Order'', ''R2 Quota Reserved''])
      else Returned (add_event s (denied_doc e ev),
                     [''Processing R1-Eligible Order'', ''R2 Quota Exhausted'']))"
      using processOrder_ok [of e d ev s] ok by blast
    then show "\<exists>s' logs l. runQuotaTransaction e s ev = Returned (s', logs, None) \<and>
             processOrderEvent e s d = Returned (s', l)"
      by (simp add: runQuota_ok [OF ok])
  qed
  show ?thesis
    using absent grant deny handler granted_doc_fields [of e ev] denied_doc_fields [of e ev]
    by blast
qed

theorem quota_transaction_decides_witness:
  "(\<exists>s'. runQuotaTransaction (example_env ''2026-02-01'' 2) example_store example_order
            = Returned (s', [''R2 Quota Reserved''], None) \<and>
          read_count (quotas s' ''2026-02-01'') = 1 \<and>
          events s' = [granted_doc (example_env ''2026-02-01'' 2) example_order])
   \<and> (\<exists>s'. runQuotaTransaction (example_env ''2026-01-31'' 2) example_store example_order
            = Returned (s', [''R2 Quota Exhausted''], None) \<and>
          quotas s' = quotas example_store \<and>
          events s' = [denied_doc (example_env ''2026-01-31'' 2) example_order])
   \<and> (\<exists>s' l. processOrderEvent (example_env ''2026-02-01'' 2) example_store example_order_doc
            = Returned (s', l) \<and> read_count (quotas s' ''2026-02-01'') = 1)"
proof -
  note A = quota_transaction_decides [of "example_env ''2026-02-01'' 2" example_store example_order,
      OF example_env_simps(4-7)]
  note B = quota_transaction_decides [of "example_env ''2026-01-31'' 2" example_store example_order,
      OF example_env_simps(4-7)]
  have lt: "sint (read_count (quotas example_store (today (example_env ''2026-02-01'' 2)))) < QuotaLimit"
    by (simp add: example_env_simps example_store_counts QuotaLimit_def)
  have ge: "\<not> sint (read_count (quotas example_store (today (example_env ''2026-01-31'' 2)))) < QuotaLimit"
    by (simp add: example_env_simps example_store_counts QuotaLimit_def)
  from A lt obtain s1 where
    a1: "runQuotaTransaction (example_env ''2026-02-01'' 2) example_store example_order
            = Returned (s1, [''R2 Quota Reserved''], None)"
    and a2: "read_count (quotas s1 (today (example_env ''2026-02-01'' 2)))
              = read_count (quotas example_store (today (example_env ''2026-02-01'' 2))) + 1"
    and a3: "events s1 = events example_store @ [granted_doc (example_env ''2026-02-01'' 2) example_order]"
    by blast
  from B ge obtain s2 where
    b1: "runQuotaTransaction (example_env ''2026-01-31'' 2) example_store example_order
            = Returned (s2, [''R2 Quota Exhausted''], None)"
    and b2: "quotas s2 = quotas example_store"
    and b3: "events s2 = events example_store @ [denied_doc (example_env ''2026-01-31'' 2) example_order]"
    by blast
  have pre: "dataTo_OrderCreated (i2f (example_env ''2026-02-01'' 2)) example_order_doc = Inr example_order
      \<and> OrderCreated.IsR1Eligible example_order
      \<and> \<not> query_fails (example_env ''2026-02-01'' 2)
      \<and> decisions_for (OrderCreated.OrderID example_order) example_store = 0"
    by (simp add: example_order_parses example_env_simps decisions_for_def example_store_counts)
      (simp add: example_order_def)
  from A pre obtain s3 logs l where
    c1: "runQuotaTransaction (example_env ''2026-02-01'' 2) example_store example_order
            = Returned (s3, logs, None)"
    and c2: "processOrderEvent (example_env ''2026-02-01'' 2) example_store example_order_doc
            = Returned (s3, l)"
    by blast
  from a1 c1 have "s3 = s1" by simp
  with a1 a2 a3 b1 b2 b3 c2 show ?thesis
    by (simp add: example_env_simps example_store_counts)
qed

text \<open>
  C3. Let the counter of the day be non-negative, let a quota transaction commit a grant,
  and let a release event be handled next on the same date key with no failing store
  call. Then the grant raised the counter by one, the release lowered it by one, the
  counter after the release is the counter before the grant, no other day's counter
  changed, and the counter is non-negative in all three states. From a store of well
  formed counters, every run of the Ledger's loop ends with all counters non-negative.
\<close>

theorem grant_then_release_net_zero:
  assumes nonneg: "0 \<le> sint (read_count (quotas s (today e1)))"
    and run: "runQuotaTransaction e1 s ev = Returned (s1, logs1, None)"
    and grant: "granted s1 = granted s + 1"
    and parsed: "dataTo_DiscountRelease d = Inr rel"
    and day: "today e2 = today e1"
    and ok: "\<not> get_fails e2" "\<not> set_fails e2" "\<not> commit_fails e2"
  shows "(\<exists>s2. processReleaseEvent e2 s1 d = Returned (s2, [''Quota Compensation Executed'']) \<and>
           read_count (quotas s1 (today e1)) = read_count (quotas s (today e1)) + 1 \<and>
           read_count (quotas s2 (today e1)) = read_count (quotas s (today e1)) \<and>
           0 \<le> sint (read_count (quotas s1 (today e1))) \<and>
           0 \<le> sint (read_count (quotas s2 (today e1))) \<and>
           (\<forall>k. k \<noteq> today e1 \<longrightarrow> quotas s2 k = quotas s k))
       \<and> ((\<forall>k. count_ok (quotas s k)) \<longrightarrow>
            (\<forall>xs. (\<forall>x\<in>set xs. ledger_subscribed (snd (snd x))) \<longrightarrow>
               (\<exists>s' logs. ledger_run xs s = Returned (s', logs) \<and>
                  (\<forall>k. 0 \<le> sint (read_count (quotas s' k))))))"
proof
  let ?c = "read_count (quotas s (today e1))"
  from runQuota_cases [of e1 s ev] run grant
  have lt: "sint ?c < QuotaLimit"
    and s1: "s1 = add_event (set_count_merge s (today e1) (?c + 1)) (granted_doc e1 ev)"
    by (auto simp: granted_add_event not_reserved_denied_doc)
  from lt have lt': "sint ?c < 100" by (simp add: QuotaLimit_def)
  have up: "sint (?c + 1) = sint ?c + 1" by (rule sint_succ [OF lt'])
  from set_count_lookup [of s "today e1" "?c + 1"] obtain q where
    q: "quotas s1 (today e2) = Some q" "q ''count'' = Some (VInt (?c + 1))"
    using s1 day by (auto simp: quotas_add_event)
  have pos: "0 < sint (?c + 1)" using up nonneg by simp
  have rel: "processReleaseEvent e2 s1 d =
      Returned (set_count_merge s1 (today e2) (?c + 1 - 1), [''Quota Compensation Executed''])"
    using q pos ok by (simp add: release_cases [OF parsed])
  have r1: "read_count (quotas s1 (today e1)) = ?c + 1"
    using s1 by (simp add: quotas_add_event read_count_set)
  have r2: "read_count (quotas (set_count_merge s1 (today e2) (?c + 1 - 1)) (today e1)) = ?c"
    using day by (simp add: read_count_set)
  have other: "\<forall>k. k \<noteq> today e1 \<longrightarrow>
      quotas (set_count_merge s1 (today e2) (?c + 1 - 1)) k = quotas s k"
    using s1 day by (simp add: quotas_set_other quotas_add_event)
  show "\<exists>s2. processReleaseEvent e2 s1 d = Returned (s2, [''Quota Compensation Executed'']) \<and>
           read_count (quotas s1 (today e1)) = ?c + 1 \<and>
           read_count (quotas s2 (today e1)) = ?c \<and>
           0 \<le> sint (read_count (quotas s1 (today e1))) \<and>
           0 \<le> sint (read_count (quotas s2 (today e1))) \<and>
           (\<forall>k. k \<noteq> today e1 \<longrightarrow> quotas s2 k = quotas s k)"
    using rel r1 r2 other up nonneg by auto
next
  show "(\<forall>k. count_ok (quotas s k)) \<longrightarrow>
            (\<forall>xs. (\<forall>x\<in>set xs. ledger_subscribed (snd (snd x))) \<longrightarrow>
               (\<exists>s' logs. ledger_run xs s = Returned (s', logs) \<and>
                  (\<forall>k. 0 \<le> sint (read_count (quotas s' k)))))"
  proof (intro impI allI)
    fix xs :: "(env \<times> change_kind \<times> doc) list"
    assume inv: "\<forall>k. count_ok (quotas s k)"
      and sub: "\<forall>x\<in>set xs. ledger_subscribed (snd (snd x))"
    from run_keeps_count_ok [OF inv sub] obtain s' logs where
      "ledger_run xs s = Returned (s', logs)" "\<forall>k. count_ok (quotas s' k)" by blast
    then show "\<exists>s' logs. ledger_run xs s = Returned (s', logs) \<and>
                  (\<forall>k. 0 \<le> sint (read_count (quotas s' k)))"
      using count_ok_read by blast
  qed
qed

theorem grant_then_release_net_zero_witness:
  "0 \<le> sint (read_count (quotas example_store ''2026-02-01''))
   \<and> runQuotaTransaction (example_env ''2026-02-01'' 2) example_store example_order
        = Returned (example_store_granted, [''R2 Quota Reserved''], None)
   \<and> granted example_store_granted = granted example_store + 1
   \<and> dataTo_DiscountRelease example_release_doc = Inr example_release
   \<and> (\<forall>k. count_ok (quotas example_store k))
   \<and> ledger_subscribed example_order_doc
   \<and> (\<exists>s2. processReleaseEvent (example_env ''2026-02-01'' 6) example_store_granted
               example_release_doc = Returned (s2, [''Quota Compensation Executed'']) \<and>
          read_count (quotas example_store_granted ''2026-02-01'') = 1 \<and>
          read_count (quotas s2 ''2026-02-01'') = 0)
   \<and> (\<exists>s' logs. ledger_run example_run example_store = Returned (s', logs) \<and>
          (\<forall>k. 0 \<le> sint (read_count (quotas s' k))))"
proof -
  have h1: "0 \<le> sint (read_count (quotas example_store (today (example_env ''2026-02-01'' 2))))"
    by (simp add: example_env_simps example_store_counts)
  have h2: "runQuotaTransaction (example_env ''2026-02-01'' 2) example_store example_order
        = Returned (example_store_granted, [''R2 Quota Reserved''], None)"
    by (simp add: runQuota_ok example_env_simps example_store_counts QuotaLimit_def
          example_store_granted_def)
  have h3: "granted example_store_granted = granted example_store + 1"
    by (simp add: example_store_granted_def granted_add_event granted_set_count
          is_reserved_granted_doc)
  have h4: "dataTo_DiscountRelease example_release_doc = Inr example_release"
    by (rule example_release_parses)
  have h5: "today (example_env ''2026-02-01'' 6) = today (example_env ''2026-02-01'' 2)"
    by (simp add: example_env_simps)
  have h6: "\<forall>k. count_ok (quotas example_store k)"
    by (simp add: example_store_def count_ok_def QuotaLimit_def)
  have h8: "ledger_subscribed example_order_doc"
    by (simp add: ledger_subscribed_def example_order_doc_def
          doc_of_OrderCreated_def example_order_def EventTypeOrderCreated_def)
  then have h7: "\<forall>x\<in>set example_run. ledger_subscribed (snd (snd x))"
    by (simp add: example_run_def)
  note T = grant_then_release_net_zero [OF h1 h2 h3 h4 h5 example_env_simps(4,5,7)]
  from T obtain s2 where
    a: "processReleaseEvent (example_env ''2026-02-01'' 6) example_store_granted
               example_release_doc = Returned (s2, [''Quota Compensation Executed''])"
    and b: "read_count (quotas example_store_granted (today (example_env ''2026-02-01'' 2)))
              = read_count (quotas example_store (today (example_env ''2026-02-01'' 2))) + 1"
    and c: "read_count (quotas s2 (today (example_env ''2026-02-01'' 2)))
              = read_count (quotas example_store (today (example_env ''2026-02-01'' 2)))"
    by blast
  from T h6 h7 have d: "\<exists>s' logs. ledger_run example_run example_store = Returned (s', logs) \<and>
          (\<forall>k. 0 \<le> sint (read_count (quotas s' k)))"
    by blast
  have e: "\<exists>s2. processReleaseEvent (example_env ''2026-02-01'' 6) example_store_granted
               example_release_doc = Returned (s2, [''Quota Compensation Executed'']) \<and>
          read_count (quotas example_store_granted ''2026-02-01'') = 1 \<and>
          read_count (quotas s2 ''2026-02-01'') = 0"
    using a b c by (simp add: example_env_simps example_store_counts)
  show ?thesis using h1 h2 h3 h4 h6 h8 d e
    by (simp add: example_env_simps)
qed

text \<open>
  C4. The release handler takes its date key from the clock alone: two release events
  that both parse are handled alike, whatever they carry. When no store call fails: with
  no counter document for today it writes nothing; with a count of zero it writes
  nothing; with a positive count it writes the count minus one and touches no other
  day. Delivering the same release event any number of times on one day, to a well
  formed counter, leaves the counter at the old value minus the number of deliveries,
  and at zero when that would be negative.
\<close>

theorem release_floors_at_zero:
  assumes parsed: "dataTo_DiscountRelease d = Inr rel"
    and ok: "\<not> get_fails e" "\<not> set_fails e" "\<not> commit_fails e"
  shows "(quotas s (today e) = None \<longrightarrow>
            processReleaseEvent e s d
              = Returned (s, [''Quota document not found for today, nothing to release'']))
     \<and> (\<forall>q. quotas s (today e) = Some q \<and> q ''count'' = Some (VInt 0) \<longrightarrow>
            processReleaseEvent e s d
              = Returned (s, [''Quota count is already zero, nothing to decrement'']))
     \<and> (\<forall>q c. quotas s (today e) = Some q \<and> q ''count'' = Some (VInt c) \<and> 0 < sint c \<longrightarrow>
            (\<exists>s'. processReleaseEvent e s d = Returned (s', [''Quota Compensation Executed'']) \<and>
               read_count (quotas s' (today e)) = c - 1 \<and>
               sint (c - 1) = sint c - 1 \<and>
               (\<forall>k. k \<noteq> today e \<longrightarrow> quotas s' k = quotas s k)))
     \<and> (\<forall>d2 rel2. dataTo_DiscountRelease d2 = Inr rel2 \<longrightarrow>
            processReleaseEvent e s d2 = processReleaseEvent e s d)
     \<and> (\<forall>es. d ''type'' = Some (VString EventTypeDiscountRelease) \<and>
            count_ok (quotas s (today e)) \<and>
            (\<forall>e2\<in>set es. today e2 = today e \<and> \<not> get_fails e2 \<and> \<not> set_fails e2 \<and>
               \<not> commit_fails e2) \<longrightarrow>
            (\<exists>s' logs. ledger_run (map (\<lambda>e2. (e2, DocumentAdded, d)) es) s = Returned (s', logs) \<and>
               sint (read_count (quotas s' (today e)))
                 = max 0 (sint (read_count (quotas s (today e))) - int (length es))))"
proof (intro conjI allI impI)
  assume "quotas s (today e) = None"
  then show "processReleaseEvent e s d
      = Returned (s, [''Quota document not found for today, nothing to release''])"
    using ok by (simp add: release_cases [OF parsed])
next
  fix q
  assume "quotas s (today e) = Some q \<and> q ''count'' = Some (VInt 0)"
  then show "processReleaseEvent e s d
      = Returned (s, [''Quota count is already zero, nothing to decrement''])"
    using ok by (simp add: release_cases [OF parsed])
next
  fix q and c :: int64
  assume a: "quotas s (today e) = Some q \<and> q ''count'' = Some (VInt c) \<and> 0 < sint c"
  then have "processReleaseEvent e s d
      = Returned (set_count_merge s (today e) (c - 1), [''Quota Compensation Executed''])"
    using ok by (simp add: release_cases [OF parsed])
  then show "\<exists>s'. processReleaseEvent e s d = Returned (s', [''Quota Compensation Executed'']) \<and>
               read_count (quotas s' (today e)) = c - 1 \<and>
               sint (c - 1) = sint c - 1 \<and>
               (\<forall>k. k \<noteq> today e \<longrightarrow> quotas s' k = quotas s k)"
    using a by (simp add: read_count_set quotas_set_other sint_pred)
next
  fix d2 rel2
  assume "dataTo_DiscountRelease d2 = Inr rel2"
  then show "processReleaseEvent e s d2 = processReleaseEvent e s d"
    by (simp add: release_cases [OF parsed] release_cases [of d2 rel2])
next
  fix es :: "env list"
  assume a: "d ''type'' = Some (VString EventTypeDiscountRelease) \<and>
            count_ok (quotas s (today e)) \<and>
            (\<forall>e2\<in>set es. today e2 = today e \<and> \<not> get_fails e2 \<and> \<not> set_fails e2 \<and>
               \<not> commit_fails e2)"
  then have ty: "d ''type'' = Some (VString EventTypeDiscountRelease)"
    and inv: "count_ok (quotas s (today e))"
    and all: "\<forall>e2\<in>set es. today e2 = today e \<and> \<not> get_fails e2 \<and> \<not> set_fails e2 \<and>
               \<not> commit_fails e2"
    by blast+
  from release_run_floor [OF parsed ty all inv]
  show "\<exists>s' logs. ledger_run (map (\<lambda>e2. (e2, DocumentAdded, d)) es) s = Returned (s', logs) \<and>
               sint (read_count (quotas s' (today e)))
                 = max 0 (sint (read_count (quotas s (today e))) - int (length es))"
    by blast
qed

theorem release_floors_at_zero_witness:
  "dataTo_DiscountRelease example_release_doc = Inr example_release
   \<and> quotas example_store (today (example_env ''2026-02-01'' 6)) = None
   \<and> processReleaseEvent (example_env ''2026-02-01'' 6) example_store example_release_doc
        = Returned (example_store, [''Quota document not found for today, nothing to release''])
   \<and> (\<exists>s'. processReleaseEvent (example_env ''2026-02-01'' 6) example_store_denied
               example_release_doc = Returned (s', [''Quota Compensation Executed'']) \<and>
            read_count (quotas s' ''2026-02-01'') = 0)
   \<and> (\<exists>s' logs. ledger_run
          (map (\<lambda>e2. (e2, DocumentAdded, example_release_doc))
             [example_env ''2026-02-01'' 6, example_env ''2026-02-01'' 7,
              example_env ''2026-02-01'' 8])
          example_store_denied = Returned (s', logs) \<and>
          sint (read_count (quotas s' ''2026-02-01'')) = 0)"
proof -
  have p: "dataTo_DiscountRelease example_release_doc = Inr example_release"
    by (rule example_release_parses)
  note A = release_floors_at_zero [where e = "example_env ''2026-02-01'' 6" and s = example_store,
      OF p example_env_simps(4,5,7)]
  note B = release_floors_at_zero [where e = "example_env ''2026-02-01'' 6"
      and s = example_store_denied, OF p example_env_simps(4,5,7)]
  have n: "quotas example_store (today (example_env ''2026-02-01'' 6)) = None"
    by (simp add: example_env_simps example_store_def)
  from A [THEN conjunct1] n
  have a: "processReleaseEvent (example_env ''2026-02-01'' 6) example_store
      example_release_doc
        = Returned (example_store, [''Quota document not found for today, nothing to release''])"
    by (rule mp)
  have q: "quotas example_store_denied (today (example_env ''2026-02-01'' 6))
             = Some [''count'' \<mapsto> VInt 1]
           \<and> [''count'' \<mapsto> VInt 1] ''count'' = Some (VInt 1) \<and> 0 < sint (1 :: int64)"
    by (simp add: example_env_simps example_store_denied_simps)
  note B3 = B [THEN conjunct2, THEN conjunct2, THEN conjunct1, rule_format, OF q]
  have b: "\<exists>s'. processReleaseEvent (example_env ''2026-02-01'' 6) example_store_denied
               example_release_doc = Returned (s', [''Quota Compensation Executed'']) \<and>
            read_count (quotas s' ''2026-02-01'') = 0"
    using B3 by (simp add: example_env_simps) blast
  have r: "example_release_doc ''type'' = Some (VString EventTypeDiscountRelease) \<and>
      count_ok (quotas example_store_denied (today (example_env ''2026-02-01'' 6))) \<and>
      (\<forall>e2\<in>set [example_env ''2026-02-01'' 6, example_env ''2026-02-01'' 7,
              example_env ''2026-02-01'' 8].
          today e2 = today (example_env ''2026-02-01'' 6) \<and> \<not> get_fails e2 \<and>
          \<not> set_fails e2 \<and> \<not> commit_fails e2)"
    by (simp add: example_env_simps example_store_denied_simps count_ok_def QuotaLimit_def
          example_release_doc_def doc_of_DiscountRelease_def example_release_def
          EventTypeDiscountRelease_def)
  have v: "sint (read_count (quotas example_store_denied (today (example_env ''2026-02-01'' 6)))) = 1"
    by (simp add: example_env_simps example_store_denied_simps read_count_def)
  note B5 = B [THEN conjunct2, THEN conjunct2, THEN conjunct2, THEN conjunct2, rule_format, OF r]
  have c: "\<exists>s' logs. ledger_run
          (map (\<lambda>e2. (e2, DocumentAdded, example_release_doc))
             [example_env ''2026-02-01'' 6, example_env ''2026-02-01'' 7,
              example_env ''2026-02-01'' 8])
          example_store_denied = Returned (s', logs) \<and>
          sint (read_count (quotas s' ''2026-02-01'')) = 0"
    using B5 unfolding v by (simp add: example_env_simps)
  show ?thesis using p n a b c by (intro conjI)
qed

text \<open>
  C10. The release handler looks only at today's counter. For a release event that
  parses, a positive count and no failing store call, it commits the count minus one
  and leaves the event log as it is, whatever that log holds: the outcome for the
  counters is the same for every event log, so also for one with no
  \<open>DiscountReserved\<close> event for the order id of the release.
\<close>

theorem release_needs_no_grant:
  assumes parsed: "dataTo_DiscountRelease d = Inr rel"
    and ok: "\<not> get_fails e" "\<not> set_fails e" "\<not> commit_fails e"
    and doc: "quotas s (today e) = Some q" "q ''count'' = Some (VInt c)"
    and pos: "0 < sint c"
  shows "\<exists>s'. processReleaseEvent e s d = Returned (s', [''Quota Compensation Executed'']) \<and>
           sint (read_count (quotas s' (today e))) = sint c - 1 \<and>
           events s' = events s \<and>
           (\<forall>log. \<exists>s2. processReleaseEvent e (s\<lparr>events := log\<rparr>) d
                          = Returned (s2, [''Quota Compensation Executed'']) \<and>
                        quotas s2 = quotas s' \<and> events s2 = log)"
proof -
  let ?s' = "set_count_merge s (today e) (c - 1)"
  have main: "processReleaseEvent e t d
        = Returned (set_count_merge t (today e) (c - 1), [''Quota Compensation Executed''])"
    if "quotas t = quotas s" for t
    using that ok doc pos by (simp add: release_cases [OF parsed])
  have a: "processReleaseEvent e s d = Returned (?s', [''Quota Compensation Executed''])"
    by (rule main) (rule refl)
  have b: "sint (read_count (quotas ?s' (today e))) = sint c - 1"
    using pos by (simp add: read_count_set sint_pred)
  have c: "events ?s' = events s"
    by (rule events_set_count)
  have d: "\<forall>log. \<exists>s2. processReleaseEvent e (s\<lparr>events := log\<rparr>) d
                          = Returned (s2, [''Quota Compensation Executed'']) \<and>
                        quotas s2 = quotas ?s' \<and> events s2 = log"
  proof
    fix log
    have 1: "processReleaseEvent e (s\<lparr>events := log\<rparr>) d
        = Returned (set_count_merge (s\<lparr>events := log\<rparr>) (today e) (c - 1),
                    [''Quota Compensation Executed''])"
      by (rule main) simp
    have 2: "quotas (set_count_merge (s\<lparr>events := log\<rparr>) (today e) (c - 1)) = quotas ?s'"
      by (simp add: set_count_merge_def)
    have 3: "events (set_count_merge (s\<lparr>events := log\<rparr>) (today e) (c - 1)) = log"
      by (simp add: set_count_merge_def)
    from 1 2 3 show "\<exists>s2. processReleaseEvent e (s\<lparr>events := log\<rparr>) d
                          = Returned (s2, [''Quota Compensation Executed'']) \<and>
                        quotas s2 = quotas ?s' \<and> events s2 = log"
      by blast
  qed
  from a b c d show ?thesis by blast
qed

theorem release_needs_no_grant_witness:
  "dataTo_DiscountRelease example_release_doc = Inr example_release
   \<and> granted example_store_denied = 0
   \<and> decisions_for (DiscountRelease.OrderID example_release) example_store_denied = 1
   \<and> sint (read_count (quotas example_store_denied ''2026-02-01'')) = 1
   \<and> (\<exists>s'. processReleaseEvent (example_env ''2026-02-01'' 6) example_store_denied
               example_release_doc = Returned (s', [''Quota Compensation Executed'']) \<and>
            sint (read_count (quotas s' ''2026-02-01'')) = 0 \<and>
            events s' = events example_store_denied)"
proof -
  have p: "dataTo_DiscountRelease example_release_doc = Inr example_release"
    by (rule example_release_parses)
  have d: "quotas example_store_denied (today (example_env ''2026-02-01'' 6))
             = Some [''count'' \<mapsto> VInt 1]"
    by (simp add: example_env_simps example_store_denied_simps)
  have c: "[''count'' \<mapsto> VInt 1] ''count'' = Some (VInt 1)" by simp
  have pos: "0 < sint (1 :: int64)" by simp
  have g: "granted example_store_denied = 0"
    by (simp add: granted_def example_store_denied_simps not_reserved_denied_doc)
  have n: "decisions_for (DiscountRelease.OrderID example_release) example_store_denied = 1"
    by (simp add: decisions_for_def example_store_denied_simps decision_docs_count
          example_release_def denied_doc_fields example_order_def)
  have v: "sint (read_count (quotas example_store_denied ''2026-02-01'')) = 1"
    by (simp add: example_store_denied_simps read_count_def)
  note T = release_needs_no_grant [OF p example_env_simps(4,5,7) d c pos]
  from T have "\<exists>s'. processReleaseEvent (example_env ''2026-02-01'' 6) example_store_denied
               example_release_doc = Returned (s', [''Quota Compensation Executed'']) \<and>
            sint (read_count (quotas s' ''2026-02-01'')) = 0 \<and>
            events s' = events example_store_denied"
    by (simp add: example_env_simps) blast
  then show ?thesis using p g n v by blast
qed

text \<open>
  C5. Before transacting, \<open>processOrderEvent\<close> asks the store whether a
  \<open>DiscountReserved\<close> or \<open>DiscountRejected\<close> event with the order id exists, and
  returns with the store unchanged when one does. So when an eligible order event with
  no decision yet is handled with no failing store call, and the same event is handled
  again in any environment, the store after the first handling holds exactly one decision
  for the order id and the second handling changes nothing.
\<close>

theorem replay_yields_one_decision:
  assumes parsed: "dataTo_OrderCreated (i2f e1) d = Inr ev"
    and el: "OrderCreated.IsR1Eligible ev"
    and fresh: "decisions_for (OrderCreated.OrderID ev) s = 0"
    and ok: "\<not> query_fails e1" "\<not> get_fails e1" "\<not> set_fails e1" "\<not> publish_fails e1"
      "\<not> commit_fails e1"
  shows "(\<exists>s1 l1 l2. processOrderEvent e1 s d = Returned (s1, l1) \<and>
            decisions_for (OrderCreated.OrderID ev) s1 = 1 \<and>
            processOrderEvent e2 s1 d = Returned (s1, l2))
       \<and> (\<forall>e t. 0 < decisions_for (OrderCreated.OrderID ev) t \<longrightarrow>
            (\<exists>l. processOrderEvent e t d = Returned (t, l)))
       \<and> (\<forall>t. checkDecisionExists e1 t (OrderCreated.OrderID ev)
                 = Inr (0 < decisions_for (OrderCreated.OrderID ev) t))"
proof (intro conjI allI impI)
  let ?oid = "OrderCreated.OrderID ev"
  let ?c = "read_count (quotas s (today e1))"
  obtain s1 l1 where first: "processOrderEvent e1 s d = Returned (s1, l1)"
    and one: "decisions_for ?oid s1 = 1"
  proof (cases "sint ?c < QuotaLimit")
    case True
    have "processOrderEvent e1 s d =
        Returned (add_event (set_count_merge s (today e1) (?c + 1)) (granted_doc e1 ev),
                  [''Processing R1-Eligible Order'', ''R2 Quota Reserved''])"
      using True by (simp add: processOrder_ok [OF parsed el fresh ok])
    moreover have "decisions_for ?oid
        (add_event (set_count_merge s (today e1) (?c + 1)) (granted_doc e1 ev)) = 1"
      using fresh by (simp add: decisions_add_event decisions_set_count decision_docs_count)
    ultimately show ?thesis using that by blast
  next
    case False
    have "processOrderEvent e1 s d =
        Returned (add_event s (denied_doc e1 ev),
                  [''Processing R1-Eligible Order'', ''R2 Quota Exhausted''])"
      using False by (simp add: processOrder_ok [OF parsed el fresh ok])
    moreover have "decisions_for ?oid (add_event s (denied_doc e1 ev)) = 1"
      using fresh by (simp add: decisions_add_event decision_docs_count)
    ultimately show ?thesis using that by blast
  qed
  from one have "0 < decisions_for ?oid s1" by simp
  from processOrder_skips_decided [OF parsed this, of e2] obtain l2 where
    "processOrderEvent e2 s1 d = Returned (s1, l2)" by blast
  with first one
  show "\<exists>s1 l1 l2. processOrderEvent e1 s d = Returned (s1, l1) \<and>
            decisions_for ?oid s1 = 1 \<and> processOrderEvent e2 s1 d = Returned (s1, l2)"
    by blast
next
  fix e :: env and t
  assume "0 < decisions_for (OrderCreated.OrderID ev) t"
  from processOrder_skips_decided [OF parsed this, of e]
  show "\<exists>l. processOrderEvent e t d = Returned (t, l)" .
next
  fix t
  show "checkDecisionExists e1 t (OrderCreated.OrderID ev)
          = Inr (0 < decisions_for (OrderCreated.OrderID ev) t)"
    by (rule check_decisions [OF ok(1)])
qed

theorem replay_yields_one_decision_witness:
  "dataTo_OrderCreated (i2f (example_env ''2026-02-01'' 2)) example_order_doc = Inr example_order
   \<and> OrderCreated.IsR1Eligible example_order
   \<and> decisions_for (OrderCreated.OrderID example_order) example_store = 0
   \<and> 0 < decisions_for (OrderCreated.OrderID example_order) example_store_denied
   \<and> (\<exists>s1 l1 l2. processOrderEvent (example_env ''2026-02-01'' 2) example_store example_order_doc
          = Returned (s1, l1) \<and>
        decisions_for (OrderCreated.OrderID example_order) s1 = 1 \<and>
        processOrderEvent (example_env ''2026-02-01'' 3) s1 example_order_doc = Returned (s1, l2))
   \<and> (\<exists>l. processOrderEvent (example_env ''2026-02-01'' 4) example_store_denied example_order_doc
          = Returned (example_store_denied, l))"
proof -
  have p: "dataTo_OrderCreated (i2f (example_env ''2026-02-01'' 2)) example_order_doc
             = Inr example_order"
    by (rule example_order_parses)
  have el: "OrderCreated.IsR1Eligible example_order"
    by (simp add: example_order_def)
  have fresh: "decisions_for (OrderCreated.OrderID example_order) example_store = 0"
    by (simp add: decisions_for_def example_store_counts)
  have old: "0 < decisions_for (OrderCreated.OrderID example_order) example_store_denied"
    by (simp add: decisions_for_def example_store_denied_simps decision_docs_count)
  note T = replay_yields_one_decision [OF p el fresh example_env_simps(3-7),
      where ?e2.0 = "example_env ''2026-02-01'' 3"]
  note T1 = T [THEN conjunct1]
  note T2 = T [THEN conjunct2, THEN conjunct1, rule_format, OF old,
      of "example_env ''2026-02-01'' 4"]
  show ?thesis using p el fresh old T1 T2 by (intro conjI)
qed



text \<open>
  C7. For a POST with an eligible request whose \<open>OrderCreated\<close> event was published,
  when the \<open>select\<close> receives a \<open>DiscountReserved\<close> decision: with
  \<open>simulate_failure\<close> set, \<open>handleOrder\<close> calls \<open>Add\<close> with a \<open>DiscountRelease\<close>
  event carrying the request's order id and trace id (so the event is in the log unless
  that \<open>Add\<close> fails, which the code does not look at) and replies 500 with status FAILED
  and the message that the quota has been released; with the flag not set it appends
  nothing more and replies 200 with status CONFIRMED.
\<close>

theorem reserved_decision_confirms_or_compensates:
  assumes post: "Method r = ''POST''"
    and body: "Body r = Some req"
    and el: "OrderRequest.IsR1Eligible req"
    and pub: "\<not> add_fails ce"
  shows "(SimulateFailure req \<longrightarrow>
           (\<exists>cs' logs. handleOrder ce cs r (Received (Reserved dr)) =
              (cs', logs,
               \<lparr>code = 500, body = JsonBody
                 \<lparr>OrderResponse.OrderID = new_orderID ce, OrderResponse.Status = ''FAILED'',
                  Message = ''Payment processing failed. Discount quota has been released.''\<rparr>\<rparr>) \<and>
              cevents cs' = cevents cs @ [published_doc ce req]
                 @ (if comp_add_fails ce then [] else [compensation_doc ce]) \<and>
              responseMap cs' = (responseMap cs)(new_orderID ce := None)))
       \<and> (\<not> SimulateFailure req \<longrightarrow>
           (\<exists>cs' logs. handleOrder ce cs r (Received (Reserved dr)) =
              (cs', logs,
               \<lparr>code = 200, body = JsonBody
                 \<lparr>OrderResponse.OrderID = new_orderID ce, OrderResponse.Status = ''CONFIRMED'',
                  Message = ''Booking confirmed! Final price: '' @ rupee
                    @ fmt2 ce (OrderRequest.FinalPrice req) @ '' (12% discount applied)''\<rparr>\<rparr>) \<and>
              cevents cs' = cevents cs @ [published_doc ce req] \<and>
              responseMap cs' = (responseMap cs)(new_orderID ce := None)))
       \<and> compensation_doc ce ''type'' = Some (VString ''DiscountRelease'')
       \<and> compensation_doc ce ''order_id'' = Some (VString (new_orderID ce))
       \<and> compensation_doc ce ''trace_id'' = Some (VString (new_traceID ce))
       \<and> published_doc ce req ''order_id'' = Some (VString (new_orderID ce))
       \<and> ledger_subscribed (compensation_doc ce)"
proof -
  have p: "handleOrder_publish ce cs r =
      (cs\<lparr>responseMap := (responseMap cs)(new_orderID ce \<mapsto> []),
          cevents := cevents cs @ [published_doc ce req]\<rparr>,
       [''Order Received'', ''Order Event Published - Checking R2 Quota''], Inr req)"
    using post body el pub
    by (simp add: handleOrder_publish_def Let_def published_doc_def)
  have a: "SimulateFailure req \<longrightarrow>
           (\<exists>cs' logs. handleOrder ce cs r (Received (Reserved dr)) =
              (cs', logs,
               \<lparr>code = 500, body = JsonBody
                 \<lparr>OrderResponse.OrderID = new_orderID ce, OrderResponse.Status = ''FAILED'',
                  Message = ''Payment processing failed. Discount quota has been released.''\<rparr>\<rparr>) \<and>
              cevents cs' = cevents cs @ [published_doc ce req]
                 @ (if comp_add_fails ce then [] else [compensation_doc ce]) \<and>
              responseMap cs' = (responseMap cs)(new_orderID ce := None))"
    by (simp add: handleOrder_def p handleOrder_decide_def Let_def compensation_doc_def)
  have b: "\<not> SimulateFailure req \<longrightarrow>
           (\<exists>cs' logs. handleOrder ce cs r (Received (Reserved dr)) =
              (cs', logs,
               \<lparr>code = 200, body = JsonBody
                 \<lparr>OrderResponse.OrderID = new_orderID ce, OrderResponse.Status = ''CONFIRMED'',
                  Message = ''Booking confirmed! Final price: '' @ rupee
                    @ fmt2 ce (OrderRequest.FinalPrice req) @ '' (12% discount applied)''\<rparr>\<rparr>) \<and>
              cevents cs' = cevents cs @ [published_doc ce req] \<and>
              responseMap cs' = (responseMap cs)(new_orderID ce := None))"
    by (simp add: handleOrder_def p handleOrder_decide_def Let_def)
  have c: "compensation_doc ce ''type'' = Some (VString ''DiscountRelease'')"
    "compensation_doc ce ''order_id'' = Some (VString (new_orderID ce))"
    "compensation_doc ce ''trace_id'' = Some (VString (new_traceID ce))"
    "ledger_subscribed (compensation_doc ce)"
    by (simp_all add: compensation_doc_def doc_of_DiscountRelease_def ledger_subscribed_def
          EventTypeDiscountRelease_def)
  have d: "published_doc ce req ''order_id'' = Some (VString (new_orderID ce))"
    by (simp add: published_doc_def doc_of_OrderCreated_def)
  show ?thesis using a b c d by (intro conjI)
qed

theorem reserved_decision_confirms_or_compensates_witness:
  "Method (example_post (example_request True True)) = ''POST''
   \<and> Body (example_post (example_request True True)) = Some (example_request True True)
   \<and> OrderRequest.IsR1Eligible (example_request True True)
   \<and> \<not> add_fails example_cenv
   \<and> SimulateFailure (example_request True True)
   \<and> \<not> SimulateFailure (example_request True False)
   \<and> (\<exists>cs' logs. handleOrder example_cenv example_coord (example_post (example_request True True))
                      (Received (Reserved example_reserved)) =
          (cs', logs,
           \<lparr>code = 500, body = JsonBody
             \<lparr>OrderResponse.OrderID = ''order-1'', OrderResponse.Status = ''FAILED'',
              Message = ''Payment processing failed. Discount quota has been released.''\<rparr>\<rparr>) \<and>
          cevents cs' = [published_doc example_cenv (example_request True True),
                         compensation_doc example_cenv])
   \<and> (\<exists>cs' logs. handleOrder example_cenv example_coord (example_post (example_request True False))
                      (Received (Reserved example_reserved)) =
          (cs', logs,
           \<lparr>code = 200, body = JsonBody
             \<lparr>OrderResponse.OrderID = ''order-1'', OrderResponse.Status = ''CONFIRMED'',
              Message = ''Booking confirmed! Final price: '' @ rupee @ ''0.00''
                @ '' (12% discount applied)''\<rparr>\<rparr>) \<and>
          cevents cs' = [published_doc example_cenv (example_request True False)])"
proof -
  have m: "Method (example_post req) = ''POST''" "Body (example_post req) = Some req" for req
    by (simp_all add: example_post_def)
  have el: "OrderRequest.IsR1Eligible (example_request True fail)" for fail
    by (simp add: example_request_def)
  have f: "SimulateFailure (example_request True True)"
    "\<not> SimulateFailure (example_request True False)"
    by (simp_all add: example_request_def)
  have ce: "new_orderID example_cenv = ''order-1''" "fmt2 example_cenv x = ''0.00''"
    "\<not> add_fails example_cenv" "\<not> comp_add_fails example_cenv" for x
    by (simp_all add: example_cenv_def)
  have co: "cevents example_coord = []"
    by (simp add: example_coord_def)
  note A = reserved_decision_confirms_or_compensates [OF m(1) m(2) el ce(3),
      of True example_coord example_reserved]
  note B = reserved_decision_confirms_or_compensates [OF m(1) m(2) el ce(3),
      of False example_coord example_reserved]
  note A1 = A [THEN conjunct1, rule_format, OF f(1)]
  note B1 = B [THEN conjunct2, THEN conjunct1, rule_format, OF f(2)]
  have a: "\<exists>cs' logs. handleOrder example_cenv example_coord (example_post (example_request True True))
                      (Received (Reserved example_reserved)) =
          (cs', logs,
           \<lparr>code = 500, body = JsonBody
             \<lparr>OrderResponse.OrderID = ''order-1'', OrderResponse.Status = ''FAILED'',
              Message = ''Payment processing failed. Discount quota has been released.''\<rparr>\<rparr>) \<and>
          cevents cs' = [published_doc example_cenv (example_request True True),
                         compensation_doc example_cenv]"
    using A1 by (simp add: ce co) blast
  have b: "\<exists>cs' logs. handleOrder example_cenv example_coord (example_post (example_request True False))
                      (Received (Reserved example_reserved)) =
          (cs', logs,
           \<lparr>code = 200, body = JsonBody
             \<lparr>OrderResponse.OrderID = ''order-1'', OrderResponse.Status = ''CONFIRMED'',
              Message = ''Booking confirmed! Final price: '' @ rupee @ ''0.00''
                @ '' (12% discount applied)''\<rparr>\<rparr>) \<and>
          cevents cs' = [published_doc example_cenv (example_request True False)]"
    using B1 by (simp add: ce co) blast
  show ?thesis using m el f ce(3) a b by (intro conjI)
qed

text \<open>
  C8. For a POST with an eligible request whose \<open>OrderCreated\<close> event was published,
  when the \<open>select\<close> receives a \<open>DiscountRejected\<close> decision, \<open>handleOrder\<close> replies
  429 with status REJECTED and the decision's \<open>Reason\<close> as the message, unchanged. The
  listener hands over the decision as \<open>DataTo\<close> reads it from the event document, so
  the \<open>reason\<close> string of the document is the \<open>Reason\<close> that is sent; for the denial
  written by the Ledger that is the fixed sentence.
\<close>

theorem rejected_decision_surfaces_reason:
  assumes post: "Method r = ''POST''"
    and body: "Body r = Some req"
    and el: "OrderRequest.IsR1Eligible req"
    and pub: "\<not> add_fails ce"
  shows "(\<exists>cs' logs. handleOrder ce cs r (Received (Rejected dj)) =
            (cs', logs,
             \<lparr>code = 429, body = JsonBody
               \<lparr>OrderResponse.OrderID = new_orderID ce, OrderResponse.Status = ''REJECTED'',
                Message = DiscountRejected.Reason dj\<rparr>\<rparr>) \<and>
            cevents cs' = cevents cs @ [published_doc ce req])
       \<and> (\<forall>le (c0 :: coord) d oid x e.
             d ''type'' = Some (VString EventTypeDiscountRejected) \<and>
             d ''order_id'' = Some (VString oid) \<and>
             responseMap c0 oid = Some [] \<and>
             dataTo_DiscountRejected d = Inr e \<and>
             d ''reason'' = Some (VString x) \<longrightarrow>
             listenForDecisions_on_change le c0 (DocumentAdded, d)
               = LReturned (c0\<lparr>responseMap := (responseMap c0)(oid \<mapsto> [Rejected e])\<rparr>) \<and>
             DiscountRejected.Reason e = x)
       \<and> (\<forall>e ev. \<exists>j. dataTo_DiscountRejected (denied_doc e ev) = Inr j \<and>
             DiscountRejected.Reason j
               = ''Daily discount quota reached. Please try again tomorrow.'')"
proof (intro conjI allI impI)
  have p: "handleOrder_publish ce cs r =
      (cs\<lparr>responseMap := (responseMap cs)(new_orderID ce \<mapsto> []),
          cevents := cevents cs @ [published_doc ce req]\<rparr>,
       [''Order Received'', ''Order Event Published - Checking R2 Quota''], Inr req)"
    using post body el pub
    by (simp add: handleOrder_publish_def Let_def published_doc_def)
  show "\<exists>cs' logs. handleOrder ce cs r (Received (Rejected dj)) =
            (cs', logs,
             \<lparr>code = 429, body = JsonBody
               \<lparr>OrderResponse.OrderID = new_orderID ce, OrderResponse.Status = ''REJECTED'',
                Message = DiscountRejected.Reason dj\<rparr>\<rparr>) \<and>
            cevents cs' = cevents cs @ [published_doc ce req]"
    by (simp add: handleOrder_def p handleOrder_decide_def Let_def)
next
  fix le and c0 :: coord and d oid x and e :: DiscountRejected
  assume a: "d ''type'' = Some (VString EventTypeDiscountRejected) \<and>
             d ''order_id'' = Some (VString oid) \<and>
             responseMap c0 oid = Some [] \<and>
             dataTo_DiscountRejected d = Inr e \<and>
             d ''reason'' = Some (VString x)"
  then show "listenForDecisions_on_change le c0 (DocumentAdded, d)
               = LReturned (c0\<lparr>responseMap := (responseMap c0)(oid \<mapsto> [Rejected e])\<rparr>)"
    by (simp add: listenForDecisions_on_change_def Let_def chan_send_def
          EventTypeDiscountRejected_def EventTypeDiscountReserved_def)
  from a show "DiscountRejected.Reason e = x"
    by (auto simp: dataTo_DiscountRejected_def thenE_def dec_string_def split: sum.splits)
next
  fix e :: env and ev :: OrderCreated
  show "\<exists>j. dataTo_DiscountRejected (denied_doc e ev) = Inr j \<and>
             DiscountRejected.Reason j
               = ''Daily discount quota reached. Please try again tomorrow.''"
    by (simp add: denied_doc_def doc_of_DiscountRejected_def dataTo_DiscountRejected_def
          thenE_def dec_string_def dec_time_def)
qed

theorem rejected_decision_surfaces_reason_witness:
  "Method (example_post (example_request True False)) = ''POST''
   \<and> Body (example_post (example_request True False)) = Some (example_request True False)
   \<and> OrderRequest.IsR1Eligible (example_request True False)
   \<and> \<not> add_fails example_cenv
   \<and> (\<exists>cs' logs. handleOrder example_cenv example_coord (example_post (example_request True False))
                      (Received (Rejected example_rejected)) =
          (cs', logs,
           \<lparr>code = 429, body = JsonBody
             \<lparr>OrderResponse.OrderID = ''order-1'', OrderResponse.Status = ''REJECTED'',
              Message = ''Daily discount quota reached. Please try again tomorrow.''\<rparr>\<rparr>))
   \<and> dataTo_DiscountRejected (denied_doc (example_env ''2026-02-01'' 3) example_order)
        = Inr example_rejected
   \<and> listenForDecisions_on_change example_lenv example_coord_waiting
         (DocumentAdded, denied_doc (example_env ''2026-02-01'' 3) example_order)
        = LReturned (example_coord_waiting
            \<lparr>responseMap := (responseMap example_coord_waiting)
               (''order-1'' \<mapsto> [Rejected example_rejected])\<rparr>)"
proof -
  have m: "Method (example_post req) = ''POST''" "Body (example_post req) = Some req" for req
    by (simp_all add: example_post_def)
  have el: "OrderRequest.IsR1Eligible (example_request True False)"
    by (simp add: example_request_def)
  have ce: "new_orderID example_cenv = ''order-1''" "\<not> add_fails example_cenv"
    by (simp_all add: example_cenv_def)
  have rs: "DiscountRejected.Reason example_rejected
              = ''Daily discount quota reached. Please try again tomorrow.''"
    by (simp add: example_rejected_def)
  note T = rejected_decision_surfaces_reason [OF m(1) m(2) el ce(2),
      of example_coord example_rejected]
  have a: "\<exists>cs' logs. handleOrder example_cenv example_coord (example_post (example_request True False))
                      (Received (Rejected example_rejected)) =
          (cs', logs,
           \<lparr>code = 429, body = JsonBody
             \<lparr>OrderResponse.OrderID = ''order-1'', OrderResponse.Status = ''REJECTED'',
              Message = ''Daily discount quota reached. Please try again tomorrow.''\<rparr>\<rparr>)"
    using T [THEN conjunct1] by (simp add: ce rs) blast
  have p: "dataTo_DiscountRejected (denied_doc (example_env ''2026-02-01'' 3) example_order)
        = Inr example_rejected"
    by (simp add: denied_doc_def doc_of_DiscountRejected_def dataTo_DiscountRejected_def
          thenE_def dec_string_def dec_time_def example_rejected_def example_order_def
          example_env_def EventTypeDiscountRejected_def)
  have h: "denied_doc (example_env ''2026-02-01'' 3) example_order ''type''
             = Some (VString EventTypeDiscountRejected) \<and>
           denied_doc (example_env ''2026-02-01'' 3) example_order ''order_id''
             = Some (VString ''order-1'') \<and>
           responseMap example_coord_waiting ''order-1'' = Some [] \<and>
           dataTo_DiscountRejected (denied_doc (example_env ''2026-02-01'' 3) example_order)
             = Inr example_rejected \<and>
           denied_doc (example_env ''2026-02-01'' 3) example_order ''reason''
             = Some (VString ''Daily discount quota reached. Please try again tomorrow.'')"
    using p by (simp add: denied_doc_fields EventTypeDiscountRejected_def example_order_def
          example_coord_waiting_def)
  note L = T [THEN conjunct2, THEN conjunct1, rule_format, OF h, THEN conjunct1,
      of example_lenv]
  show ?thesis using m el ce(2) a p L by (intro conjI)
qed

text \<open>
  C9. An order event whose fields have the wrong kind is dropped by the Ledger with a log
  line and an unchanged store. The Coordinator's loop reads \<open>order_id\<close> with an unchecked
  type assertion: for a decision event that the subscription delivers and whose
  \<open>order_id\<close> is not a string, \<open>listenForDecisions\<close> panics.
\<close>

theorem listener_panics_on_malformed_decision:
  "ledger_subscribed malformed_order_doc
   \<and> ledger_on_change (example_env ''2026-02-01'' 2) example_store
         (DocumentAdded, malformed_order_doc)
       = Returned (example_store, [''Failed to parse event''])
   \<and> coordinator_subscribed malformed_decision_doc
   \<and> listenForDecisions_on_change example_lenv example_coord
         (DocumentAdded, malformed_decision_doc) = LPanicked"
proof (intro conjI)
  show "ledger_subscribed malformed_order_doc"
    by (simp add: ledger_subscribed_def malformed_order_doc_def EventTypeOrderCreated_def)
  have "dataTo_OrderCreated f malformed_order_doc = Inl DecodeErr" for f
    by (simp add: dataTo_OrderCreated_def malformed_order_doc_def thenE_def dec_string_def
          dec_time_def)
  then have "processOrderEvent (example_env ''2026-02-01'' 2) example_store malformed_order_doc
      = Returned (example_store, [''Failed to parse event''])"
    by (simp add: processOrderEvent_def)
  moreover have "malformed_order_doc ''type'' = Some (VString EventTypeOrderCreated)"
    by (simp add: malformed_order_doc_def EventTypeOrderCreated_def)
  ultimately show "ledger_on_change (example_env ''2026-02-01'' 2) example_store
         (DocumentAdded, malformed_order_doc)
       = Returned (example_store, [''Failed to parse event''])"
    by (simp add: ledger_on_change_def)
  show "coordinator_subscribed malformed_decision_doc"
    by (simp add: coordinator_subscribed_def malformed_decision_doc_def
          EventTypeDiscountReserved_def)
  show "listenForDecisions_on_change example_lenv example_coord
         (DocumentAdded, malformed_decision_doc) = LPanicked"
    by (simp add: listenForDecisions_on_change_def malformed_decision_doc_def Let_def)
qed

end
